theory Spec2Isabelle
  imports Main "HOL-Library.AList"
begin

section \<open>The Tezos chain adapter: controllers of \<open>src/chains/tezos/tezos.controllers.ts\<close>\<close>

text \<open>
  The controllers take a chain client (\<open>Tezosish\<close>) and a request record and return a
  response or throw. The client is an external collaborator: it is modelled as a record of
  functions, one per method the controllers call. A method that returns a promise may
  reject, so its result is a sum: \<open>Inl\<close> carries the text of the thrown error, \<open>Inr\<close> the
  value. Every controller returns, next to its result, the list of client calls it issued,
  in the order it issued them.
\<close>

subsection \<open>Faults\<close>

text \<open>
  Modelled from the spec: the constants \<open>LOAD_WALLET_ERROR_CODE\<close>,
  \<open>TOKEN_NOT_SUPPORTED_ERROR_CODE\<close> and the two message templates of
  \<open>services/error-handler\<close> are declared outside the two source files. The spec names two fault
  codes, each with a fixed message template that may be followed by contextual detail;
  they are kept symbolic. A message is the template and the text appended to it
  (\<open>''''\<close> when the code appends nothing).
\<close>

datatype error_code = LOAD_WALLET_ERROR_CODE | TOKEN_NOT_SUPPORTED_ERROR_CODE

datatype message_template = LOAD_WALLET_ERROR_MESSAGE | TOKEN_NOT_SUPPORTED_ERROR_MESSAGE

type_synonym message = "message_template \<times> string"

text \<open>
  \<open>HttpException status message code\<close> is a fault a controller constructs itself;
  \<open>Thrown e\<close> is an error thrown by a collaborator (the client, the wallet, ethers) that
  the controller lets through unchanged.
\<close>

datatype fault = HttpException nat message error_code | Thrown string

subsection \<open>Decimal strings and JavaScript numbers\<close>

text \<open>The decimal digits of a natural number, as \<open>BigNumber.toString\<close> prints them.\<close>

fun decimal :: "nat \<Rightarrow> string" where
  "decimal n = (if n < 10 then [''0123456789'' ! n] else decimal (n div 10) @ [''0123456789'' ! (n mod 10)])"

declare decimal.simps [simp del]

text \<open>
  The controllers use JavaScript numbers only through \<open>parseInt\<close>, \<open>+\<close> and \<open>String\<close>
  on the results. Such a number is an integer-valued IEEE 754 double, \<open>NaN\<close> or an
  infinity. \<open>Num i\<close> stands for the double whose value is the integer \<open>i\<close>; negative zero
  is identified with zero (\<open>String\<close> prints both as \<open>0\<close>).
\<close>

datatype number = Num int | NaN | Infinity | NegInfinity

fun bitlen :: "nat \<Rightarrow> nat" where
  "bitlen n = (if n = 0 then 0 else Suc (bitlen (n div 2)))"

declare bitlen.simps [simp del]

text \<open>
  The integer a double holds after rounding \<open>n\<close> to 53 significant bits, to nearest, ties
  to even. Integers of at most 53 bits are exact.
\<close>

definition round_double :: "nat \<Rightarrow> nat" where
  "round_double n =
     (if bitlen n \<le> 53 then n
      else let e = bitlen n - 53; q = n div 2 ^ e; r = n mod 2 ^ e; h = 2 ^ (e - 1)
           in if r < h \<or> (r = h \<and> even q) then q * 2 ^ e else (q + 1) * 2 ^ e)"

definition to_Number :: "int \<Rightarrow> number" where
  "to_Number i =
     (let m = round_double (nat \<bar>i\<bar>)
      in if 2 ^ 1024 \<le> m then (if i < 0 then NegInfinity else Infinity)
         else Num (if i < 0 then - int m else int m))"

text \<open>The operator \<open>+\<close> on numbers: the exact sum, rounded.\<close>

fun number_add :: "number \<Rightarrow> number \<Rightarrow> number" where
  "number_add (Num a) (Num b) = to_Number (a + b)"
| "number_add NaN _ = NaN"
| "number_add _ NaN = NaN"
| "number_add Infinity NegInfinity = NaN"
| "number_add NegInfinity Infinity = NaN"
| "number_add Infinity _ = Infinity"
| "number_add _ Infinity = Infinity"
| "number_add NegInfinity _ = NegInfinity"
| "number_add _ NegInfinity = NegInfinity"

text \<open>
  \<open>parseInt(string)\<close> with no radix: leading white space is dropped (the ASCII white
  space characters; the non-ASCII ones of ECMAScript are not modelled), then an optional
  sign, then an optional \<open>0x\<close> prefix that selects radix 16; the longest prefix of digits
  is read, and no digit at all gives \<open>NaN\<close>. The integer read is converted to a double.
\<close>

definition is_whitespace :: "char \<Rightarrow> bool" where
  "is_whitespace c = (let k = (of_char c :: nat) in k = 32 \<or> (9 \<le> k \<and> k \<le> 13))"

definition digit_of :: "nat \<Rightarrow> char \<Rightarrow> nat option" where
  "digit_of R c =
     (let k = (of_char c :: nat);
          v = (if 48 \<le> k \<and> k \<le> 57 then Some (k - 48)
               else if 97 \<le> k \<and> k \<le> 122 then Some (k - 87)
               else if 65 \<le> k \<and> k \<le> 90 then Some (k - 55)
               else None)
      in case v of None \<Rightarrow> None | Some d \<Rightarrow> if d < R then Some d else None)"

fun parse_digits :: "nat \<Rightarrow> string \<Rightarrow> nat \<Rightarrow> nat" where
  "parse_digits R [] acc = acc"
| "parse_digits R (c # cs) acc =
     (case digit_of R c of None \<Rightarrow> acc | Some d \<Rightarrow> parse_digits R cs (acc * R + d))"

definition parseInt :: "string \<Rightarrow> number" where
  "parseInt string =
     (let S = dropWhile is_whitespace string;
          negative = (take 1 S = ''-'');
          S1 = (if take 1 S = ''-'' \<or> take 1 S = ''+'' then drop 1 S else S);
          hex = (take 2 S1 = ''0x'' \<or> take 2 S1 = ''0X'');
          R = (if hex then 16 else 10);
          Z = (if hex then drop 2 S1 else S1)
      in case Z of
           [] \<Rightarrow> NaN
         | c # _ \<Rightarrow>
            (case digit_of R c of
               None \<Rightarrow> NaN
             | Some _ \<Rightarrow>
                to_Number (if negative then - int (parse_digits R Z 0)
                           else int (parse_digits R Z 0))))"

text \<open>
  \<open>String(x)\<close> on a number. For a positive finite \<open>x\<close> ECMAScript picks the least
  number \<open>k\<close> of significant digits such that some \<open>k\<close>-digit integer \<open>s\<close> and exponent
  \<open>n\<close> give a decimal \<open>s * 10 ^ (n - k)\<close> that converts back to \<open>x\<close>, takes the \<open>s\<close>
  closest to \<open>x\<close>, and prints \<open>s\<close> followed by \<open>n - k\<close> zeros when \<open>n \<le> 21\<close>,
  exponent notation otherwise. Up to \<open>2 ^ 53\<close> distinct integers are distinct doubles,
  so the digits printed are those of \<open>x\<close> itself.
\<close>

definition candidates :: "nat \<Rightarrow> nat \<Rightarrow> nat \<Rightarrow> (nat \<times> nat) list" where
  "candidates x k n =
     filter (\<lambda>(s, n). 10 ^ (k - 1) \<le> s \<and> s < 10 ^ k \<and> round_double (s * 10 ^ (n - k)) = x)
       [(x div 10 ^ (n - k), n), (x div 10 ^ (n - k) + 1, n)]"

definition distance :: "nat \<Rightarrow> nat \<Rightarrow> nat \<times> nat \<Rightarrow> nat" where
  "distance x k c = (let v = fst c * 10 ^ (snd c - k) in if v \<le> x then x - v else v - x)"

fun closest :: "nat \<Rightarrow> nat \<Rightarrow> (nat \<times> nat) list \<Rightarrow> nat \<times> nat \<Rightarrow> nat \<times> nat" where
  "closest x k [] best = best"
| "closest x k (c # cs) best =
     closest x k cs
       (if distance x k c < distance x k best
           \<or> (distance x k c = distance x k best \<and> even (fst c) \<and> odd (fst best))
        then c else best)"

fun shortest :: "nat \<Rightarrow> nat \<Rightarrow> nat \<Rightarrow> nat \<Rightarrow> nat \<times> nat \<times> nat" where
  "shortest x nd k 0 = (x, nd, nd)"
| "shortest x nd k (Suc fuel) =
     (case candidates x k nd @ candidates x k (Suc nd) of
        [] \<Rightarrow> shortest x nd (Suc k) fuel
      | c # cs \<Rightarrow> (let b = closest x k cs c in (fst b, k, snd b)))"

definition String_positive :: "nat \<Rightarrow> string" where
  "String_positive x =
     (if x \<le> 2 ^ 53 then decimal x
      else let nd = length (decimal x);
               (s, k, n) = shortest x nd 1 nd;
               digits = decimal s
           in if n \<le> 21 then digits @ replicate (n - k) (CHR ''0'')
              else if k = 1 then digits @ ''e+'' @ decimal (n - 1)
              else take 1 digits @ ''.'' @ drop 1 digits @ ''e+'' @ decimal (n - 1))"

fun String_number :: "number \<Rightarrow> string" where
  "String_number NaN = ''NaN''"
| "String_number Infinity = ''Infinity''"
| "String_number NegInfinity = ''-Infinity''"
| "String_number (Num i) =
     (if i < 0 then ''-'' @ String_positive (nat (- i)) else String_positive (nat i))"

subsection \<open>JSON values and \<open>JSON.stringify\<close>\<close>

text \<open>
  The parameters of a chain operation are a Michelson expression in its JSON form:
  strings, arrays and objects with string keys. \<open>JSON.stringify\<close> quotes a string,
  escaping the quote, the backslash and the control characters, and prints arrays and
  objects without white space.
\<close>

datatype json = JString string | JArray "json list" | JObject "(string \<times> json) list"

definition hex_digit :: "nat \<Rightarrow> char" where
  "hex_digit n = ''0123456789abcdef'' ! n"

definition escape_char :: "char \<Rightarrow> string" where
  "escape_char c =
     (let k = (of_char c :: nat)
      in if k = 34 then [CHR 0x5C, CHR 0x22]
         else if k = 92 then [CHR 0x5C, CHR 0x5C]
         else if k = 8 then [CHR 0x5C, CHR ''b'']
         else if k = 9 then [CHR 0x5C, CHR ''t'']
         else if k = 10 then [CHR 0x5C, CHR ''n'']
         else if k = 12 then [CHR 0x5C, CHR ''f'']
         else if k = 13 then [CHR 0x5C, CHR ''r'']
         else if k < 32 then
           [CHR 0x5C, CHR ''u'', CHR ''0'', CHR ''0'', hex_digit (k div 16), hex_digit (k mod 16)]
         else [c])"

definition quote :: "string \<Rightarrow> string" where
  "quote s = [CHR 0x22] @ concat (map escape_char s) @ [CHR 0x22]"

fun intersperse :: "string \<Rightarrow> string list \<Rightarrow> string" where
  "intersperse sep [] = []"
| "intersperse sep [x] = x"
| "intersperse sep (x # y # ys) = x @ sep @ intersperse sep (y # ys)"

fun JSON_stringify :: "json \<Rightarrow> string" where
  "JSON_stringify (JString s) = quote s"
| "JSON_stringify (JArray xs) = ''['' @ intersperse '','' (map JSON_stringify xs) @ '']''"
| "JSON_stringify (JObject fs) =
     ''{'' @ intersperse '','' (map (\<lambda>f. quote (fst f) @ '':'' @ JSON_stringify (snd f)) fs) @ ''}''"

subsection \<open>Helpers of \<open>services/base\<close>\<close>

text \<open>
  Modelled from the spec: \<open>bigNumberWithDecimalToStr\<close>, \<open>tokenValueToString\<close> and
  \<open>latency\<close> live in \<open>services/base\<close>, outside the two source files. The
  spec has a decimal-scaled amount as the integer quantity divided by \<open>10 ^ decimals\<close>
  and rendered as a fixed-precision decimal string (\<open>1000000\<close> at 6 decimals is
  \<open>1.000000\<close>), and the latency as the time elapsed since the request started.
\<close>

definition bigNumberWithDecimalToStr :: "int \<Rightarrow> nat \<Rightarrow> string" where
  "bigNumberWithDecimalToStr n d =
     (let m = nat \<bar>n\<bar>
      in (if n < 0 then ''-'' else []) @ decimal (m div 10 ^ d) @ ''.''
           @ drop 1 (decimal (10 ^ d + m mod 10 ^ d)))"

record TokenValue =
  "value" :: int
  decimals :: nat

definition tokenValueToString :: "TokenValue \<Rightarrow> string" where
  "tokenValueToString t = bigNumberWithDecimalToStr (value t) (TokenValue.decimals t)"

definition latency' :: "nat \<Rightarrow> nat \<Rightarrow> int" where
  "latency' startTime endTime = int endTime - int startTime"

subsection \<open>ethers\<close>

text \<open>
  \<open>constants.MaxUint256\<close> and \<open>utils.parseUnits\<close> come from the ethers library
  (version 5), a dependency. A \<open>BigNumber\<close> is an unbounded integer; an error is
  modelled by its reason alone. \<open>parseUnits\<close>
  with a numeric unit is \<open>parseFixed\<close>: the unit must be an integer from 0 to 256; the
  value must match \<open>-?[0-9.]+\<close>, must not be a lone point and must not hold two
  points; an empty whole or fractional part reads as \<open>0\<close>; trailing zeros of the
  fraction are dropped, and more remaining fractional digits than \<open>decimals\<close> is an error;
  the result is \<open>whole * 10 ^ decimals + fraction\<close> with the fraction padded to
  \<open>decimals\<close> digits, negated after a leading minus.
\<close>

definition MaxUint256 :: int where
  "MaxUint256 = 2 ^ 256 - 1"

definition is_digit :: "char \<Rightarrow> bool" where
  "is_digit c = (let k = (of_char c :: nat) in 48 \<le> k \<and> k \<le> 57)"

definition trim_zeros :: "string \<Rightarrow> string" where
  "trim_zeros s = rev (dropWhile (\<lambda>c. c = CHR ''0'') (rev s))"

definition parseUnits :: "string \<Rightarrow> nat \<Rightarrow> string + int" where
  "parseUnits v unit =
     (if 256 < unit then Inl ''invalid decimal size''
      else
        let negative = (take 1 v = ''-'');
            v1 = (if negative then drop 1 v else v)
        in if v1 = [] \<or> \<not> list_all (\<lambda>c. is_digit c \<or> c = CHR ''.'') v1
           then Inl ''invalid decimal value''
           else if v1 = ''.'' then Inl ''missing value''
           else
             let whole0 = takeWhile (\<lambda>c. c \<noteq> CHR ''.'') v1;
                 rest = drop 1 (dropWhile (\<lambda>c. c \<noteq> CHR ''.'') v1)
             in if CHR ''.'' \<in> set rest then Inl ''too many decimal points''
                else
                  let whole = (if whole0 = [] then ''0'' else whole0);
                      fraction = trim_zeros (if rest = [] then ''0'' else rest)
                  in if unit < length fraction then Inl ''fractional component exceeds decimals''
                     else
                       let nonempty = (if fraction = [] then ''0'' else fraction);
                           padded = nonempty @ replicate (unit - length nonempty) (CHR ''0'');
                           wei = int (parse_digits 10 whole 0) * 10 ^ unit
                                   + int (parse_digits 10 padded 0)
                       in Inr (if negative then - wei else wei))"

subsection \<open>Data\<close>

text \<open>
  Modelled from the spec: \<open>TokenInfo\<close> is declared in \<open>tezos.base\<close>, outside the two
  source files. The spec has it as a registry entry with an address, an optional token id,
  the decimals and the standard, a string; the controllers read these four fields.
\<close>

record TokenInfo =
  address :: string
  tokenId :: "nat option"
  decimals :: nat
  standard :: string

text \<open>
  The mempool snapshot is the \<open>PendingOperations\<close> of the Taquito RPC client: five lists
  of operations, each with a hash and its contents. The contents of an operation and a
  finalized transaction are opaque here.
\<close>

type_synonym operation_contents = string

type_synonym chain_transaction = string

record PendingOperation =
  hash :: string
  contents :: "operation_contents list"

record PendingOperations =
  applied :: "PendingOperation list"
  branch_delayed :: "PendingOperation list"
  branch_refused :: "PendingOperation list"
  refused :: "PendingOperation list"
  unprocessed :: "PendingOperation list"

text \<open>
  The payload of \<open>txData\<close>: the contents of an applied mempool operation, or the
  transaction returned by the finalized-chain lookup. \<open>null\<close> is \<open>None\<close>.
\<close>

datatype txData = Contents "operation_contents list" | Transaction chain_transaction

text \<open>A chain-native transaction operation with its result, as the RPC returns it.\<close>

record OperationContentsAndResultTransaction =
  source :: string
  destination :: string
  counter :: string
  gas_limit :: string
  storage_limit :: string
  amount :: string
  parameters :: "json option"

record TransactionOperation =
  hash :: string
  operationResults :: "OperationContentsAndResultTransaction list"

text \<open>
  The two contract entry points \<open>approve\<close> invokes, with the argument object of each:
  \<open>methods.approve({spender, value})\<close> and
  \<open>methods.update_operators({add_operator: {owner, operator, token_id}})\<close>.
\<close>

datatype contract_call =
    Approve string int
  | Update_operators_add_operator string string "nat option"

text \<open>
  A contract handle: \<open>send\<close> builds the method call and submits it. A wallet
  (\<open>TezosToolkit\<close>): \<open>contract_at\<close> is \<open>wallet.contract.at\<close>, \<open>rpc_getChainId\<close> is
  \<open>wallet.rpc.getChainId\<close>.
\<close>

record ContractAbstraction =
  send :: "contract_call \<Rightarrow> string + TransactionOperation"

record TezosToolkit =
  contract_at :: "string \<Rightarrow> string + ContractAbstraction"
  rpc_getChainId :: "string + string"

subsection \<open>Client calls\<close>

datatype call =
    GetTokenForSymbol string
  | GetNativeBalance string
  | GetTokenBalance string string nat nat
  | GetTokenAllowance string string string string "nat option" nat
  | GetCurrentBlockNumber
  | GetPendingTransactions
  | GetTransaction string
  | GetWallet string
  | ContractAt string
  | Send contract_call
  | GetChainId

text \<open>
  Modelled from the spec: the interface \<open>Tezosish\<close> is declared in
  \<open>services/common-interfaces\<close>, outside the two source files. The record has the
  members the controllers use, with the parameters the calls in the source pass.
  \<open>getTokenForSymbol\<close> is a synchronous lookup that yields a token or \<open>undefined\<close>.
  \<open>getTransaction\<close> yields \<open>Inr None\<close> when the awaited value is falsy (no transaction
  found) and \<open>Inr (Some tx)\<close> when it is a transaction object.
\<close>

record Tezosish =
  chainName :: string
  chain :: string
  nativeTokenSymbol :: string
  getTokenForSymbol :: "string \<Rightarrow> TokenInfo option"
  getNativeBalance :: "string \<Rightarrow> string + TokenValue"
  getTokenBalance :: "string \<Rightarrow> string \<Rightarrow> nat \<Rightarrow> nat \<Rightarrow> string + TokenValue"
  getTokenAllowance ::
    "string \<Rightarrow> string \<Rightarrow> string \<Rightarrow> string \<Rightarrow> nat option \<Rightarrow> nat \<Rightarrow> string + TokenValue"
  getCurrentBlockNumber :: "string + nat"
  getPendingTransactions :: "string + PendingOperations"
  getTransaction :: "string \<Rightarrow> string + chain_transaction option"
  getWallet :: "string \<Rightarrow> string + TezosToolkit"

subsection \<open>poll\<close>

text \<open>
  Modelled from the spec: \<open>PollRequest\<close> and \<open>PollResponse\<close> are declared in
  \<open>tezos.request\<close>, outside the two source files. The request carries the hash; the
  response has the six fields \<open>poll\<close> returns, with \<open>txStatus\<close> an integer and
  \<open>txData\<close> nullable.
\<close>

record PollRequest =
  txHash :: string

record PollResponse =
  network :: string
  currentBlock :: nat
  timestamp :: nat
  txHash :: string
  txStatus :: int
  txData :: "txData option"

text \<open>
  \<open>initTime\<close> is the value of \<open>Date.now()\<close> at entry. The chain of \<open>else if\<close> tests
  the result of \<open>Array.prototype.find\<close> for truthiness; a found element is an object,
  hence truthy.
\<close>

definition poll :: "Tezosish \<Rightarrow> nat \<Rightarrow> PollRequest \<Rightarrow> call list \<times> (fault + PollResponse)" where
  "poll tezosish initTime req =
    (case getCurrentBlockNumber tezosish of
       Inl e \<Rightarrow> ([GetCurrentBlockNumber], Inl (Thrown e))
     | Inr block \<Rightarrow>
        (case getPendingTransactions tezosish of
           Inl e \<Rightarrow> ([GetCurrentBlockNumber, GetPendingTransactions], Inl (Thrown e))
         | Inr pendingTxs \<Rightarrow>
            (let response = (\<lambda>status data.
                   \<lparr> network = chain tezosish, currentBlock = block,
                     timestamp = initTime, txHash = PollRequest.txHash req,
                     txStatus = status, txData = data \<rparr>);
                 found = (\<lambda>txs. find (\<lambda>tx. PendingOperation.hash tx = PollRequest.txHash req) txs)
             in (case found (applied pendingTxs) of
                   Some appliedTx \<Rightarrow>
                     ([GetCurrentBlockNumber, GetPendingTransactions],
                      Inr (response 1 (Some (Contents (contents appliedTx)))))
                 | None \<Rightarrow>
                    if found (branch_delayed pendingTxs) \<noteq> None then
                      ([GetCurrentBlockNumber, GetPendingTransactions], Inr (response 2 None))
                    else if found (branch_refused pendingTxs) \<noteq> None then
                      ([GetCurrentBlockNumber, GetPendingTransactions], Inr (response 3 None))
                    else if found (refused pendingTxs) \<noteq> None then
                      ([GetCurrentBlockNumber, GetPendingTransactions], Inr (response 4 None))
                    else if found (unprocessed pendingTxs) \<noteq> None then
                      ([GetCurrentBlockNumber, GetPendingTransactions], Inr (response 5 None))
                    else
                      (case getTransaction tezosish (PollRequest.txHash req) of
                         Inl e \<Rightarrow>
                           ([GetCurrentBlockNumber, GetPendingTransactions,
                             GetTransaction (PollRequest.txHash req)], Inl (Thrown e))
                       | Inr None \<Rightarrow>
                           ([GetCurrentBlockNumber, GetPendingTransactions,
                             GetTransaction (PollRequest.txHash req)], Inr (response (- 1) None))
                       | Inr (Some tx) \<Rightarrow>
                           ([GetCurrentBlockNumber, GetPendingTransactions,
                             GetTransaction (PollRequest.txHash req)],
                            Inr (response 1 (Some (Transaction tx)))))))))"

text \<open>The hashes held by one mempool partition.\<close>

definition hashes :: "PendingOperation list \<Rightarrow> string set" where
  "hashes txs = PendingOperation.hash ` set txs"

text \<open>
  The table of the specification: the number of the first mempool partition, in the order
  applied, branch\_delayed, branch\_refused, refused, unprocessed, that holds the hash.
\<close>

definition first_match :: "PendingOperations \<Rightarrow> string \<Rightarrow> nat option" where
  "first_match p h =
     (if h \<in> hashes (applied p) then Some 1
      else if h \<in> hashes (branch_delayed p) then Some 2
      else if h \<in> hashes (branch_refused p) then Some 3
      else if h \<in> hashes (refused p) then Some 4
      else if h \<in> hashes (unprocessed p) then Some 5
      else None)"

subsection \<open>getTokenSymbolsToTokens\<close>

text \<open>
  The object \<open>tokens\<close> is an association list in insertion order: assigning to a key
  that is present replaces its value in place, assigning to a new key appends it, and
  \<open>Object.keys\<close> is \<open>map fst\<close>. (JavaScript lists keys that are canonical array indices
  first; this changes the order of the keys only, on which no result below depends.)
\<close>

fun getTokenSymbolsToTokens_loop ::
  "Tezosish \<Rightarrow> string list \<Rightarrow> (string \<times> TokenInfo) list \<Rightarrow> (string \<times> TokenInfo) list" where
  "getTokenSymbolsToTokens_loop tezos [] tokens = tokens"
| "getTokenSymbolsToTokens_loop tezos (symbol # rest) tokens =
     (case getTokenForSymbol tezos symbol of
        None \<Rightarrow> getTokenSymbolsToTokens_loop tezos rest tokens
      | Some token \<Rightarrow> getTokenSymbolsToTokens_loop tezos rest (AList.update symbol token tokens))"

definition getTokenSymbolsToTokens :: "Tezosish \<Rightarrow> string list \<Rightarrow> (string \<times> TokenInfo) list" where
  "getTokenSymbolsToTokens tezos tokenSymbols = getTokenSymbolsToTokens_loop tezos tokenSymbols []"

subsection \<open>Promise.all over the per-token tasks\<close>

text \<open>
  \<open>Object.keys(tokens).map(async (symbol) => ...)\<close> runs every callback up to its first
  \<open>await\<close>, so every client call is issued, in key order, before any result is used. A
  task is modelled by the calls it issues and its outcome. \<open>Promise.all\<close> rejects when a
  task rejects; the reason it reports is that of the task that settles first, which
  depends on timing: the model reports the first rejected task in key order.
\<close>

fun promise_all :: "(call list \<times> (string + 'a)) list \<Rightarrow> call list \<times> (string + 'a list)" where
  "promise_all [] = ([], Inr [])"
| "promise_all (p # ps) =
     (fst p @ fst (promise_all ps),
      case snd p of
        Inl e \<Rightarrow> Inl e
      | Inr v \<Rightarrow> (case snd (promise_all ps) of Inl e \<Rightarrow> Inl e | Inr vs \<Rightarrow> Inr (v # vs)))"

text \<open>
  The assignments \<open>result[symbol] = v\<close> the fulfilled tasks make; a task that assigns
  nothing yields \<open>None\<close>. The tasks assign as they complete; the model assigns in key
  order. Every key is assigned by its own task only, so the mapping is the same in any
  order, and only the order of its keys may differ.
\<close>

fun assign_all :: "(string \<times> string) option list \<Rightarrow> (string \<times> string) list \<Rightarrow> (string \<times> string) list" where
  "assign_all [] result = result"
| "assign_all (None # es) result = assign_all es result"
| "assign_all (Some (k, v) # es) result = assign_all es (AList.update k v result)"

definition token_not_supported :: fault where
  "token_not_supported =
     HttpException 500 (TOKEN_NOT_SUPPORTED_ERROR_MESSAGE, []) TOKEN_NOT_SUPPORTED_ERROR_CODE"

subsection \<open>balances\<close>

text \<open>
  Modelled from the spec: the request and response types of the controllers are declared
  in \<open>tezos.request\<close> and \<open>evm.requests\<close>, outside the two source files. The records
  have the fields the controllers read and write; the chain and network of a request,
  which the controllers do not read, are left out.
\<close>

record BalanceRequest =
  address :: string
  tokenSymbols :: "string list"

record BalanceResponse =
  network :: string
  timestamp :: nat
  latency :: int
  balances :: "(string \<times> string) list"

text \<open>The callback of \<open>balances\<close> for one key of \<open>tokens\<close>.\<close>

definition balances_task ::
  "Tezosish \<Rightarrow> BalanceRequest \<Rightarrow> (string \<times> TokenInfo) list \<Rightarrow> string
     \<Rightarrow> call list \<times> (string + (string \<times> string) option)" where
  "balances_task tezos req tokens symbol =
     (case map_of tokens symbol of
        None \<Rightarrow> ([], Inr None)
      | Some tok \<Rightarrow>
         if symbol \<noteq> nativeTokenSymbol tezos then
           (case tokenId tok of
              None \<Rightarrow> ([], Inr None)
            | Some tid \<Rightarrow>
               ([GetTokenBalance (TokenInfo.address tok) (BalanceRequest.address req) tid
                   (TokenInfo.decimals tok)],
                case getTokenBalance tezos (TokenInfo.address tok) (BalanceRequest.address req) tid
                       (TokenInfo.decimals tok) of
                  Inl e \<Rightarrow> Inl e
                | Inr balance \<Rightarrow> Inr (Some (symbol, tokenValueToString balance))))
         else ([], Inr None))"

text \<open>
  \<open>initTime\<close> and \<open>endTime\<close> are the two readings of \<open>Date.now()\<close>. \<open>balances_tokens\<close>
  is the part of \<open>balances\<close> from \<open>Promise.all\<close> on, given the mapping \<open>balances0\<close>
  built so far.
\<close>

definition balances_tokens ::
  "Tezosish \<Rightarrow> nat \<Rightarrow> nat \<Rightarrow> BalanceRequest \<Rightarrow> (string \<times> TokenInfo) list
     \<Rightarrow> (string \<times> string) list \<Rightarrow> call list \<times> (fault + BalanceResponse)" where
  "balances_tokens tezos initTime endTime req tokens balances0 =
     (case promise_all (map (balances_task tezos req tokens) (map fst tokens)) of
        (cs, Inl e) \<Rightarrow> (cs, Inl (Thrown e))
      | (cs, Inr entries) \<Rightarrow>
         (cs,
          if assign_all entries balances0 = [] then Inl token_not_supported
          else Inr \<lparr> network = chainName tezos, timestamp = initTime,
                     latency = latency' initTime endTime,
                     balances = assign_all entries balances0 \<rparr>))"

definition balances ::
  "Tezosish \<Rightarrow> nat \<Rightarrow> nat \<Rightarrow> BalanceRequest \<Rightarrow> call list \<times> (fault + BalanceResponse)" where
  "balances tezos initTime endTime req =
     (let tokens = getTokenSymbolsToTokens tezos (BalanceRequest.tokenSymbols req);
          lookups = map GetTokenForSymbol (BalanceRequest.tokenSymbols req)
      in if nativeTokenSymbol tezos \<in> set (BalanceRequest.tokenSymbols req) then
           (case getNativeBalance tezos (BalanceRequest.address req) of
              Inl e \<Rightarrow>
                (lookups @ [GetNativeBalance (BalanceRequest.address req)], Inl (Thrown e))
            | Inr v \<Rightarrow>
                (lookups @ [GetNativeBalance (BalanceRequest.address req)]
                   @ fst (balances_tokens tezos initTime endTime req tokens
                            [(nativeTokenSymbol tezos, tokenValueToString v)]),
                 snd (balances_tokens tezos initTime endTime req tokens
                        [(nativeTokenSymbol tezos, tokenValueToString v)])))
         else
           (lookups @ fst (balances_tokens tezos initTime endTime req tokens []),
            snd (balances_tokens tezos initTime endTime req tokens [])))"

subsection \<open>allowances\<close>

record AllowancesRequest =
  address :: string
  spender :: string
  tokenSymbols :: "string list"

record AllowancesResponse =
  network :: string
  timestamp :: nat
  latency :: int
  spender :: string
  approvals :: "(string \<times> string) list"



subsection \<open>toTezosTransaction\<close>

text \<open>
  Modelled from the spec: \<open>CustomTransaction\<close> is declared in
  \<open>services/common-interfaces\<close>, outside the two source files; the record has the ten
  fields \<open>toTezosTransaction\<close> fills.
\<close>

record CustomTransaction =
  hash :: string
  "to" :: string
  "from" :: string
  nonce :: number
  gasLimit :: string
  maxFeePerGas :: "string option"
  "value" :: string
  chainId :: string
  data :: "string option"
  maxPriorityFeePerGas :: "string option"

text \<open>
  \<open>null\<close> is \<open>None\<close>. \<open>JSON.stringify(undefined)\<close> is \<open>undefined\<close>: an operation
  without parameters has no \<open>data\<close>.
\<close>

definition toTezosTransaction ::
  "string \<Rightarrow> OperationContentsAndResultTransaction \<Rightarrow> string \<Rightarrow> CustomTransaction" where
  "toTezosTransaction h transaction cid =
     \<lparr> hash = h,
       to = destination transaction,
       from = source transaction,
       nonce = parseInt (counter transaction),
       gasLimit = String_number
         (number_add (parseInt (gas_limit transaction)) (parseInt (storage_limit transaction))),
       maxFeePerGas = None,
       value = amount transaction,
       chainId = cid,
       data = map_option JSON_stringify (parameters transaction),
       maxPriorityFeePerGas = None \<rparr>"

subsection \<open>approve\<close>

record ApproveRequest =
  amount :: "string option"
  address :: string
  spender :: string
  token :: string

record ApproveResponse =
  network :: string
  timestamp :: nat
  latency :: int
  tokenAddress :: string
  spender :: string
  amount :: string
  nonce :: number
  approval :: CustomTransaction

text \<open>
  The amount of the approval: \<open>amount ? utils.parseUnits(amount, decimals) :
  constants.MaxUint256\<close>. A string is truthy when it is not empty.
\<close>

definition amountBigNumber :: "string option \<Rightarrow> nat \<Rightarrow> string + int" where
  "amountBigNumber a d =
     (case a of
        None \<Rightarrow> Inr MaxUint256
      | Some s \<Rightarrow> if s \<noteq> [] then parseUnits s d else Inr MaxUint256)"

text \<open>
  The end of \<open>approve\<close>: the chosen entry point is sent, then the operation results are
  inspected. \<open>calls\<close> are the client calls issued before.
\<close>

definition approve_send ::
  "Tezosish \<Rightarrow> nat \<Rightarrow> nat \<Rightarrow> ApproveRequest \<Rightarrow> TezosToolkit \<Rightarrow> TokenInfo \<Rightarrow> int
     \<Rightarrow> ContractAbstraction \<Rightarrow> call list \<Rightarrow> contract_call
     \<Rightarrow> call list \<times> (fault + ApproveResponse)" where
  "approve_send tezos initTime endTime req wallet fullToken amt contract calls c =
     (case send contract c of
        Inl e \<Rightarrow> (calls @ [Send c], Inl (Thrown e))
      | Inr approvalOperation \<Rightarrow>
         (case operationResults approvalOperation of
            [] \<Rightarrow> (calls @ [Send c], Inl token_not_supported)
          | op # _ \<Rightarrow>
             (case rpc_getChainId wallet of
                Inl e \<Rightarrow> (calls @ [Send c, GetChainId], Inl (Thrown e))
              | Inr cid \<Rightarrow>
                 (calls @ [Send c, GetChainId],
                  Inr \<lparr> network = chainName tezos, timestamp = initTime,
                        latency = latency' initTime endTime,
                        tokenAddress = TokenInfo.address fullToken,
                        spender = ApproveRequest.spender req,
                        amount = bigNumberWithDecimalToStr amt (TokenInfo.decimals fullToken),
                        nonce = parseInt (counter op),
                        approval =
                          toTezosTransaction (TransactionOperation.hash approvalOperation) op cid \<rparr>))))"

definition approve ::
  "Tezosish \<Rightarrow> nat \<Rightarrow> nat \<Rightarrow> ApproveRequest \<Rightarrow> call list \<times> (fault + ApproveResponse)" where
  "approve tezos initTime endTime req =
     (case getWallet tezos (ApproveRequest.address req) of
        Inl err \<Rightarrow>
          ([GetWallet (ApproveRequest.address req)],
           Inl (HttpException 500 (LOAD_WALLET_ERROR_MESSAGE, err) LOAD_WALLET_ERROR_CODE))
      | Inr wallet \<Rightarrow>
         (case getTokenForSymbol tezos (token req) of
            None \<Rightarrow>
              ([GetWallet (ApproveRequest.address req), GetTokenForSymbol (token req)],
               Inl (HttpException 500 (TOKEN_NOT_SUPPORTED_ERROR_MESSAGE, token req)
                      TOKEN_NOT_SUPPORTED_ERROR_CODE))
          | Some fullToken \<Rightarrow>
             (case amountBigNumber (ApproveRequest.amount req) (TokenInfo.decimals fullToken) of
                Inl e \<Rightarrow>
                  ([GetWallet (ApproveRequest.address req), GetTokenForSymbol (token req)],
                   Inl (Thrown e))
              | Inr amt \<Rightarrow>
                 (case contract_at wallet (TokenInfo.address fullToken) of
                    Inl e \<Rightarrow>
                      ([GetWallet (ApproveRequest.address req), GetTokenForSymbol (token req),
                        ContractAt (TokenInfo.address fullToken)], Inl (Thrown e))
                  | Inr contract \<Rightarrow>
                     (let calls = [GetWallet (ApproveRequest.address req),
                                   GetTokenForSymbol (token req),
                                   ContractAt (TokenInfo.address fullToken)]
                      in if standard fullToken = ''fa1.2'' then
                           approve_send tezos initTime endTime req wallet fullToken amt contract
                             calls (Approve (ApproveRequest.spender req) amt)
                         else if standard fullToken = ''fa2'' then
                           approve_send tezos initTime endTime req wallet fullToken amt contract
                             calls
                             (Update_operators_add_operator (ApproveRequest.address req)
                                (ApproveRequest.spender req) (tokenId fullToken))
                         else (calls, Inl token_not_supported))))))"

subsection \<open>A concrete client\<close>

text \<open>
  A client with the native symbol \<open>XTZ\<close> and five registry entries: \<open>USDT\<close> (operator
  style, token id 0), \<open>CTEZ\<close> (allowance style, no token id), \<open>ODD\<close> (operator style,
  no token id), \<open>LEGACY\<close> (a standard that is neither of the two) and \<open>VOID\<close>
  (allowance style, at a contract whose operations come back without results). Its
  mempool holds one operation per partition but \<open>refused\<close>; the hash \<open>op_a\<close> is in two
  partitions. The wallet of \<open>tz1owner\<close> loads, no other does.
\<close>

definition example_operation :: OperationContentsAndResultTransaction where
  "example_operation =
     \<lparr> source = ''tz1owner'', destination = ''KT1usdt'', counter = ''41'',
       gas_limit = ''1500'', storage_limit = ''60'',
       OperationContentsAndResultTransaction.amount = ''0'',
       parameters = Some (JObject [(''entrypoint'', JString ''approve'')]) \<rparr>"

definition example_contract :: ContractAbstraction where
  "example_contract =
     \<lparr> send = (\<lambda>c. Inr \<lparr> TransactionOperation.hash = ''oo1'',
                          operationResults = [example_operation] \<rparr>) \<rparr>"

definition void_contract :: ContractAbstraction where
  "void_contract =
     \<lparr> send = (\<lambda>c. Inr \<lparr> TransactionOperation.hash = ''oo2'', operationResults = [] \<rparr>) \<rparr>"

definition example_wallet :: TezosToolkit where
  "example_wallet =
     \<lparr> contract_at = (\<lambda>a. if a = ''KT1void'' then Inr void_contract else Inr example_contract),
       rpc_getChainId = Inr ''NetXdQprcVkpaWU'' \<rparr>"

definition example_pending :: PendingOperations where
  "example_pending =
     \<lparr> applied = [\<lparr> PendingOperation.hash = ''op_a'', contents = [''transfer''] \<rparr>],
       branch_delayed = [\<lparr> PendingOperation.hash = ''op_b'', contents = [''transfer''] \<rparr>],
       branch_refused = [\<lparr> PendingOperation.hash = ''op_c'', contents = [] \<rparr>],
       refused = [],
       unprocessed = [\<lparr> PendingOperation.hash = ''op_a'', contents = [] \<rparr>,
                      \<lparr> PendingOperation.hash = ''op_u'', contents = [] \<rparr>] \<rparr>"

definition example_registry :: "string \<Rightarrow> TokenInfo option" where
  "example_registry s =
     (if s = ''USDT'' then
        Some \<lparr> TokenInfo.address = ''KT1usdt'', tokenId = Some 0, TokenInfo.decimals = 6,
               standard = ''fa2'' \<rparr>
      else if s = ''CTEZ'' then
        Some \<lparr> TokenInfo.address = ''KT1ctez'', tokenId = None, TokenInfo.decimals = 6,
               standard = ''fa1.2'' \<rparr>
      else if s = ''ODD'' then
        Some \<lparr> TokenInfo.address = ''KT1odd'', tokenId = None, TokenInfo.decimals = 3,
               standard = ''fa2'' \<rparr>
      else if s = ''LEGACY'' then
        Some \<lparr> TokenInfo.address = ''KT1legacy'', tokenId = Some 1, TokenInfo.decimals = 8,
               standard = ''fa3'' \<rparr>
      else if s = ''VOID'' then
        Some \<lparr> TokenInfo.address = ''KT1void'', tokenId = Some 0, TokenInfo.decimals = 6,
               standard = ''fa1.2'' \<rparr>
      else None)"

definition example_tezos :: Tezosish where
  "example_tezos =
     \<lparr> chainName = ''tezos'', chain = ''mainnet'', nativeTokenSymbol = ''XTZ'',
       getTokenForSymbol = example_registry,
       getNativeBalance = (\<lambda>a. Inr \<lparr> TokenValue.value = 1000000, TokenValue.decimals = 6 \<rparr>),
       getTokenBalance = (\<lambda>a owner tid d. Inr \<lparr> TokenValue.value = 2500000, TokenValue.decimals = d \<rparr>),
       getTokenAllowance =
         (\<lambda>a owner sp std tid d. Inr \<lparr> TokenValue.value = 7, TokenValue.decimals = d \<rparr>),
       getCurrentBlockNumber = Inr 100,
       getPendingTransactions = Inr example_pending,
       getTransaction = (\<lambda>h. Inr (if h = ''op_f'' then Some ''finalized'' else None)),
       getWallet = (\<lambda>a. if a = ''tz1owner'' then Inr example_wallet else Inl ''no key'') \<rparr>"

section \<open>Properties\<close>

subsection \<open>poll\<close>

lemma find_hash_None:
  "(find (\<lambda>tx. PendingOperation.hash tx = h) txs = None) = (h \<notin> hashes txs)"
  by (auto simp: hashes_def find_None_iff)

lemma find_hash_SomeD:
  "find (\<lambda>tx. PendingOperation.hash tx = h) txs = Some tx \<Longrightarrow>
     tx \<in> set txs \<and> PendingOperation.hash tx = h"
  by (auto simp: find_Some_iff)

text \<open>
  C1. With the block number and the mempool snapshot at hand, \<open>poll\<close> reports the number
  of the first partition that holds the hash, in the order applied (1), branch\_delayed
  (2), branch\_refused (3), refused (4), unprocessed (5), and does not call the finalized
  lookup; \<open>txData\<close> is then set only for applied, to the contents of an applied operation
  with that hash. When no partition holds the hash, the finalized lookup is called: a
  transaction found gives status 1 with that transaction as \<open>txData\<close>, none found gives
  status -1 with null \<open>txData\<close>. The lookup is called exactly when no partition holds
  the hash.
\<close>

theorem poll_classification:
  assumes blk: "getCurrentBlockNumber c = Inr b"
    and pend: "getPendingTransactions c = Inr p"
  shows
   "(\<forall>k. first_match p (PollRequest.txHash req) = Some k \<longrightarrow>
       GetTransaction (PollRequest.txHash req) \<notin> set (fst (poll c t req)) \<and>
       (\<exists>r. snd (poll c t req) = Inr r \<and> txStatus r = int k \<and>
          (if k = 1
           then \<exists>tx \<in> set (applied p). PendingOperation.hash tx = PollRequest.txHash req \<and>
                  txData r = Some (Contents (contents tx))
           else txData r = None))) \<and>
    (first_match p (PollRequest.txHash req) = None \<longrightarrow>
       GetTransaction (PollRequest.txHash req) \<in> set (fst (poll c t req)) \<and>
       (\<forall>tx. getTransaction c (PollRequest.txHash req) = Inr (Some tx) \<longrightarrow>
          (\<exists>r. snd (poll c t req) = Inr r \<and> txStatus r = 1 \<and>
             txData r = Some (Transaction tx))) \<and>
       (getTransaction c (PollRequest.txHash req) = Inr None \<longrightarrow>
          (\<exists>r. snd (poll c t req) = Inr r \<and> txStatus r = - 1 \<and> txData r = None))) \<and>
    (GetTransaction (PollRequest.txHash req) \<in> set (fst (poll c t req)))
       = (first_match p (PollRequest.txHash req) = None)"
proof -
  let ?h = "PollRequest.txHash req"
  have hit: "first_match p ?h = Some k \<Longrightarrow>
       GetTransaction ?h \<notin> set (fst (poll c t req)) \<and>
       (\<exists>r. snd (poll c t req) = Inr r \<and> txStatus r = int k \<and>
          (if k = 1
           then \<exists>tx \<in> set (applied p). PendingOperation.hash tx = ?h \<and>
                  txData r = Some (Contents (contents tx))
           else txData r = None))" for k
    using blk pend
    by (auto simp: poll_def Let_def first_match_def find_hash_None
          split: option.splits if_splits dest: find_hash_SomeD)
  have miss: "first_match p ?h = None \<Longrightarrow>
       GetTransaction ?h \<in> set (fst (poll c t req)) \<and>
       (\<forall>tx. getTransaction c ?h = Inr (Some tx) \<longrightarrow>
          (\<exists>r. snd (poll c t req) = Inr r \<and> txStatus r = 1 \<and>
             txData r = Some (Transaction tx))) \<and>
       (getTransaction c ?h = Inr None \<longrightarrow>
          (\<exists>r. snd (poll c t req) = Inr r \<and> txStatus r = - 1 \<and> txData r = None))"
    using blk pend
    by (auto simp: poll_def Let_def first_match_def find_hash_None
          split: option.splits if_splits sum.splits)
  have only: "(GetTransaction ?h \<in> set (fst (poll c t req))) = (first_match p ?h = None)"
    using hit miss by (cases "first_match p ?h") auto
  show ?thesis using hit miss only by blast
qed

theorem poll_classification_witness:
  "getCurrentBlockNumber example_tezos = Inr 100 \<and>
   getPendingTransactions example_tezos = Inr example_pending \<and>
   first_match example_pending ''op_a'' = Some 1 \<and>
   first_match example_pending ''op_c'' = Some 3 \<and>
   first_match example_pending ''op_f'' = None \<and>
   GetTransaction ''op_a'' \<notin> set (fst (poll example_tezos 5 \<lparr> PollRequest.txHash = ''op_a'' \<rparr>)) \<and>
   (\<exists>r. snd (poll example_tezos 5 \<lparr> PollRequest.txHash = ''op_a'' \<rparr>) = Inr r \<and>
      txStatus r = 1 \<and> txData r = Some (Contents [''transfer''])) \<and>
   (\<exists>r. snd (poll example_tezos 5 \<lparr> PollRequest.txHash = ''op_c'' \<rparr>) = Inr r \<and>
      txStatus r = 3 \<and> txData r = None) \<and>
   GetTransaction ''op_f'' \<in> set (fst (poll example_tezos 5 \<lparr> PollRequest.txHash = ''op_f'' \<rparr>)) \<and>
   (\<exists>r. snd (poll example_tezos 5 \<lparr> PollRequest.txHash = ''op_f'' \<rparr>) = Inr r \<and>
      txStatus r = 1 \<and> txData r = Some (Transaction ''finalized''))"
proof -
  have blk: "getCurrentBlockNumber example_tezos = Inr 100"
    by (simp add: example_tezos_def)
  have pend: "getPendingTransactions example_tezos = Inr example_pending"
    by (simp add: example_tezos_def)
  have fa: "first_match example_pending ''op_a'' = Some 1"
    by (simp add: first_match_def example_pending_def hashes_def)
  have fc: "first_match example_pending ''op_c'' = Some 3"
    by (simp add: first_match_def example_pending_def hashes_def)
  have ff: "first_match example_pending ''op_f'' = None"
    by (simp add: first_match_def example_pending_def hashes_def)
  have fin: "getTransaction example_tezos ''op_f'' = Inr (Some ''finalized'')"
    by (simp add: example_tezos_def)
  have ap: "applied example_pending = [\<lparr> PendingOperation.hash = ''op_a'', contents = [''transfer''] \<rparr>]"
    by (simp add: example_pending_def)
  note a = poll_classification [OF blk pend, of "\<lparr> PollRequest.txHash = ''op_a'' \<rparr>" 5]
  note c = poll_classification [OF blk pend, of "\<lparr> PollRequest.txHash = ''op_c'' \<rparr>" 5]
  note f = poll_classification [OF blk pend, of "\<lparr> PollRequest.txHash = ''op_f'' \<rparr>" 5]
  from a fa ap have 1:
    "GetTransaction ''op_a'' \<notin> set (fst (poll example_tezos 5 \<lparr> PollRequest.txHash = ''op_a'' \<rparr>)) \<and>
     (\<exists>r. snd (poll example_tezos 5 \<lparr> PollRequest.txHash = ''op_a'' \<rparr>) = Inr r \<and>
        txStatus r = 1 \<and> txData r = Some (Contents [''transfer'']))"
    by auto
  from c fc have 2:
    "\<exists>r. snd (poll example_tezos 5 \<lparr> PollRequest.txHash = ''op_c'' \<rparr>) = Inr r \<and>
        txStatus r = 3 \<and> txData r = None"
    by auto
  from f ff fin have 3:
    "GetTransaction ''op_f'' \<in> set (fst (poll example_tezos 5 \<lparr> PollRequest.txHash = ''op_f'' \<rparr>)) \<and>
     (\<exists>r. snd (poll example_tezos 5 \<lparr> PollRequest.txHash = ''op_f'' \<rparr>) = Inr r \<and>
        txStatus r = 1 \<and> txData r = Some (Transaction ''finalized''))"
    by auto
  show ?thesis using blk pend fa fc ff 1 2 3 by simp
qed

subsection \<open>The resolved tokens\<close>

lemma map_of_loop:
  "map_of (getTokenSymbolsToTokens_loop c syms acc) s =
     (if s \<in> set syms \<and> getTokenForSymbol c s \<noteq> None then getTokenForSymbol c s
      else map_of acc s)"
  by (induction syms arbitrary: acc) (auto simp: update_conv' split: option.splits)

lemma map_of_tokens:
  "map_of (getTokenSymbolsToTokens c syms) s =
     (if s \<in> set syms then getTokenForSymbol c s else None)"
  by (simp add: getTokenSymbolsToTokens_def map_of_loop)

lemma keys_tokens:
  "set (map fst (getTokenSymbolsToTokens c syms)) =
     {s \<in> set syms. getTokenForSymbol c s \<noteq> None}"
proof -
  have "fst ` set (getTokenSymbolsToTokens c syms) = dom (map_of (getTokenSymbolsToTokens c syms))"
    by (simp add: dom_map_of_conv_image_fst)
  also have "\<dots> = {s \<in> set syms. getTokenForSymbol c s \<noteq> None}"
    by (auto simp: dom_def map_of_tokens)
  finally show ?thesis by simp
qed

lemma key_tokensD:
  "s \<in> set (map fst (getTokenSymbolsToTokens c syms)) \<Longrightarrow>
     s \<in> set syms \<and> (\<exists>tok. getTokenForSymbol c s = Some tok \<and>
        map_of (getTokenSymbolsToTokens c syms) s = Some tok)"
  using keys_tokens [of c syms] by (auto simp: map_of_tokens)

subsection \<open>Promise.all and the assignments\<close>

lemma promise_all_calls: "fst (promise_all ps) = concat (map fst ps)"
  by (induction ps) auto


lemma promise_all_InrD:
  "snd (promise_all ps) = Inr vs \<Longrightarrow> map snd ps = map Inr vs"
  by (induction ps arbitrary: vs) (auto split: sum.splits)

lemma promise_all_InlD:
  "snd (promise_all ps) = Inl e \<Longrightarrow> \<exists>p \<in> set ps. snd p = Inl e"
  by (induction ps) (auto split: sum.splits)



lemma map_of_assign_all:
  "\<forall>k v. Some (k, v) \<in> set es \<longrightarrow> v = g k \<Longrightarrow>
     map_of (assign_all es r) k =
       (if \<exists>v. Some (k, v) \<in> set es then Some (g k) else map_of r k)"
  by (induction es r rule: assign_all.induct) (auto simp: update_conv')

lemma promise_all_entryD:
  "snd (promise_all (map f ks)) = Inr es \<Longrightarrow> e \<in> set es \<Longrightarrow> \<exists>k \<in> set ks. snd (f k) = Inr e"
proof -
  assume a: "snd (promise_all (map f ks)) = Inr es" and e: "e \<in> set es"
  from a have "map snd (map f ks) = map Inr es" by (rule promise_all_InrD)
  then have "Inr ` set es = (\<lambda>k. snd (f k)) ` set ks"
    by (metis (no_types, lifting) list.set_map map_map comp_apply image_cong)
  with e show ?thesis by (metis (no_types, lifting) imageE imageI)
qed



lemma map_of_assign_all_other:
  "\<forall>v. Some (k, v) \<notin> set es \<Longrightarrow> map_of (assign_all es r) k = map_of r k"
  by (induction es r rule: assign_all.induct) (auto simp: update_conv')




subsection \<open>balances\<close>

lemma balances_task_entryD:
  "snd (balances_task c req tokens s) = Inr (Some (k, v)) \<Longrightarrow>
     k = s \<and> s \<noteq> nativeTokenSymbol c \<and>
     (\<exists>tok i bal. map_of tokens s = Some tok \<and> tokenId tok = Some i \<and>
        getTokenBalance c (TokenInfo.address tok) (BalanceRequest.address req) i
          (TokenInfo.decimals tok) = Inr bal \<and> v = tokenValueToString bal)"
  by (auto simp: balances_task_def split: option.splits if_splits sum.splits)

lemma balances_task_callD:
  "x \<in> set (fst (balances_task c req tokens s)) \<Longrightarrow>
     s \<noteq> nativeTokenSymbol c \<and>
     (\<exists>tok i. map_of tokens s = Some tok \<and> tokenId tok = Some i \<and>
        x = GetTokenBalance (TokenInfo.address tok) (BalanceRequest.address req) i
              (TokenInfo.decimals tok))"
  by (auto simp: balances_task_def split: option.splits if_splits)

lemma balances_tokens_calls:
  "fst (balances_tokens c t0 t1 req tokens b0) =
     concat (map (\<lambda>s. fst (balances_task c req tokens s)) (map fst tokens))"
  by (auto simp: balances_tokens_def promise_all_calls comp_def split: prod.splits sum.splits
      dest: arg_cong [where f = fst])

lemma balances_calls:
  "set (fst (balances c t0 t1 req)) \<subseteq>
     GetTokenForSymbol ` set (BalanceRequest.tokenSymbols req)
     \<union> (if nativeTokenSymbol c \<in> set (BalanceRequest.tokenSymbols req)
        then {GetNativeBalance (BalanceRequest.address req)} else {})
     \<union> (\<Union>s \<in> set (map fst (getTokenSymbolsToTokens c (BalanceRequest.tokenSymbols req))).
          set (fst (balances_task c req (getTokenSymbolsToTokens c (BalanceRequest.tokenSymbols req)) s)))"
  by (auto simp: balances_def Let_def balances_tokens_calls split: sum.splits)

lemma balances_tokens_InrD:
  assumes "snd (balances_tokens c t0 t1 req tokens b0) = Inr r"
  shows "\<exists>es. snd (promise_all (map (balances_task c req tokens) (map fst tokens))) = Inr es \<and>
           BalanceResponse.balances r = assign_all es b0 \<and> assign_all es b0 \<noteq> [] \<and>
           BalanceResponse.network r = chainName c \<and> BalanceResponse.timestamp r = t0"
  using assms
  by (cases "promise_all (map (balances_task c req tokens) (map fst tokens))")
     (auto simp: balances_tokens_def split: sum.splits if_splits)

lemma balances_InrD:
  assumes "snd (balances c t0 t1 req) = Inr r"
  shows "\<exists>es b0. snd (promise_all (map (balances_task c req (getTokenSymbolsToTokens c (BalanceRequest.tokenSymbols req)))
                      (map fst (getTokenSymbolsToTokens c (BalanceRequest.tokenSymbols req))))) = Inr es \<and>
           BalanceResponse.balances r = assign_all es b0 \<and> assign_all es b0 \<noteq> [] \<and>
           (if nativeTokenSymbol c \<in> set (BalanceRequest.tokenSymbols req)
            then \<exists>v. getNativeBalance c (BalanceRequest.address req) = Inr v \<and>
                   b0 = [(nativeTokenSymbol c, tokenValueToString v)]
            else b0 = [])"
  using assms
  by (auto simp: balances_def Let_def split: if_splits sum.splits dest!: balances_tokens_InrD)

lemma balances_callD:
  assumes "x \<in> set (fst (balances c t0 t1 req))"
  shows "x \<in> GetTokenForSymbol ` set (BalanceRequest.tokenSymbols req) \<or>
         (x = GetNativeBalance (BalanceRequest.address req) \<and>
          nativeTokenSymbol c \<in> set (BalanceRequest.tokenSymbols req)) \<or>
         (\<exists>s \<in> set (map fst (getTokenSymbolsToTokens c (BalanceRequest.tokenSymbols req))).
            x \<in> set (fst (balances_task c req
                   (getTokenSymbolsToTokens c (BalanceRequest.tokenSymbols req)) s)))"
  using assms balances_calls [of c t0 t1 req] by (auto split: if_splits)

text \<open>
  C7. \<open>balances\<close> calls the native-balance fetch exactly when the native symbol is in the
  requested list, whatever the registry says about that symbol; a successful response
  holds the native balance under the native symbol in that case and no entry for the
  native symbol otherwise; and every token-balance fetch is for a requested symbol other
  than the native one.
\<close>

theorem balances_native_symbol:
  "((GetNativeBalance a \<in> set (fst (balances c t0 t1 req))) =
      (a = BalanceRequest.address req \<and>
       nativeTokenSymbol c \<in> set (BalanceRequest.tokenSymbols req))) \<and>
   (\<forall>r. snd (balances c t0 t1 req) = Inr r \<longrightarrow>
      (if nativeTokenSymbol c \<in> set (BalanceRequest.tokenSymbols req)
       then \<exists>v. getNativeBalance c (BalanceRequest.address req) = Inr v \<and>
              map_of (BalanceResponse.balances r) (nativeTokenSymbol c)
                = Some (tokenValueToString v)
       else map_of (BalanceResponse.balances r) (nativeTokenSymbol c) = None)) \<and>
   (\<forall>ta owner tid d. GetTokenBalance ta owner tid d \<in> set (fst (balances c t0 t1 req)) \<longrightarrow>
      (\<exists>s tok. s \<in> set (BalanceRequest.tokenSymbols req) \<and> s \<noteq> nativeTokenSymbol c \<and>
         getTokenForSymbol c s = Some tok \<and> ta = TokenInfo.address tok \<and>
         owner = BalanceRequest.address req \<and> tokenId tok = Some tid \<and>
         d = TokenInfo.decimals tok))"
proof -
  let ?syms = "BalanceRequest.tokenSymbols req"
  let ?native = "nativeTokenSymbol c"
  let ?tokens = "getTokenSymbolsToTokens c ?syms"
  have nocall: "GetNativeBalance a \<notin> set (fst (balances_tokens c t0 t1 req ?tokens b0))" for b0
    by (auto simp: balances_tokens_calls dest: balances_task_callD)
  have 1: "(GetNativeBalance a \<in> set (fst (balances c t0 t1 req))) =
      (a = BalanceRequest.address req \<and> ?native \<in> set ?syms)"
    using nocall by (auto simp: balances_def Let_def split: sum.splits)
  have 2: "if ?native \<in> set ?syms
       then \<exists>v. getNativeBalance c (BalanceRequest.address req) = Inr v \<and>
              map_of (BalanceResponse.balances r) ?native = Some (tokenValueToString v)
       else map_of (BalanceResponse.balances r) ?native = None"
    if r: "snd (balances c t0 t1 req) = Inr r" for r
  proof -
    from balances_InrD [OF r] obtain es b0 where
      es: "snd (promise_all (map (balances_task c req ?tokens) (map fst ?tokens))) = Inr es"
      and bal: "BalanceResponse.balances r = assign_all es b0"
      and b0: "if ?native \<in> set ?syms
            then \<exists>v. getNativeBalance c (BalanceRequest.address req) = Inr v \<and>
                   b0 = [(?native, tokenValueToString v)]
            else b0 = []"
      by blast
    have "\<forall>v. Some (?native, v) \<notin> set es"
      using promise_all_entryD [OF es] balances_task_entryD by blast
    then have "map_of (assign_all es b0) ?native = map_of b0 ?native"
      by (rule map_of_assign_all_other)
    with bal b0 show ?thesis by (auto split: if_splits)
  qed
  have 3: "\<exists>s tok. s \<in> set ?syms \<and> s \<noteq> ?native \<and>
         getTokenForSymbol c s = Some tok \<and> ta = TokenInfo.address tok \<and>
         owner = BalanceRequest.address req \<and> tokenId tok = Some tid \<and>
         d = TokenInfo.decimals tok"
    if "GetTokenBalance ta owner tid d \<in> set (fst (balances c t0 t1 req))" for ta owner tid d
  proof -
    from balances_callD [OF that]
    obtain s where s: "s \<in> set (map fst ?tokens)"
      and x: "GetTokenBalance ta owner tid d \<in> set (fst (balances_task c req ?tokens s))"
      by auto
    from key_tokensD [OF s] obtain tok where
      "s \<in> set ?syms" "getTokenForSymbol c s = Some tok" "map_of ?tokens s = Some tok"
      by blast
    with balances_task_callD [OF x] show ?thesis by auto
  qed
  show ?thesis using 1 2 3 by blast
qed

lemmas example_simps =
  example_tezos_def example_registry_def example_wallet_def example_contract_def
  void_contract_def
  example_operation_def example_pending_def

lemmas balances_simps =
  balances_def balances_tokens_def balances_task_def getTokenSymbolsToTokens_def
  tokenValueToString_def bigNumberWithDecimalToStr_def decimal.simps latency'_def
  token_not_supported_def

lemma balances_example: "balances example_tezos 5 9 \<lparr> BalanceRequest.address = ''tz1owner'',
                 BalanceRequest.tokenSymbols = [''XTZ'', ''USDT''] \<rparr> =
      ([GetTokenForSymbol ''XTZ'', GetTokenForSymbol ''USDT'', GetNativeBalance ''tz1owner'',
        GetTokenBalance ''KT1usdt'' ''tz1owner'' 0 6],
       Inr \<lparr> BalanceResponse.network = ''tezos'', timestamp = 5, latency = 4,
             balances = [(''XTZ'', ''1.000000''), (''USDT'', ''2.500000'')] \<rparr>)"
    by (simp add: balances_simps example_simps)

theorem balances_native_symbol_witness:
  "GetNativeBalance ''tz1owner'' \<in> set (fst (balances example_tezos 5 9
      \<lparr> BalanceRequest.address = ''tz1owner'', BalanceRequest.tokenSymbols = [''XTZ'', ''USDT''] \<rparr>)) \<and>
   (\<exists>r v. snd (balances example_tezos 5 9
      \<lparr> BalanceRequest.address = ''tz1owner'', BalanceRequest.tokenSymbols = [''XTZ'', ''USDT''] \<rparr>) = Inr r \<and>
      getNativeBalance example_tezos ''tz1owner'' = Inr v \<and>
      map_of (BalanceResponse.balances r) ''XTZ'' = Some (tokenValueToString v)) \<and>
   GetTokenBalance ''KT1usdt'' ''tz1owner'' 0 6 \<in> set (fst (balances example_tezos 5 9
      \<lparr> BalanceRequest.address = ''tz1owner'', BalanceRequest.tokenSymbols = [''XTZ'', ''USDT''] \<rparr>)) \<and>
   (\<exists>s tok. s \<in> set [''XTZ'', ''USDT''] \<and> s \<noteq> ''XTZ'' \<and>
      getTokenForSymbol example_tezos s = Some tok \<and> ''KT1usdt'' = TokenInfo.address tok)"
proof -
  let ?req = "\<lparr> BalanceRequest.address = ''tz1owner'',
                 BalanceRequest.tokenSymbols = [''XTZ'', ''USDT''] \<rparr>"
  let ?out = "balances example_tezos 5 9 ?req"
  have nat: "nativeTokenSymbol example_tezos = ''XTZ''"
    by (simp add: example_tezos_def)
  have syms: "BalanceRequest.tokenSymbols ?req = [''XTZ'', ''USDT'']"
    and addr: "BalanceRequest.address ?req = ''tz1owner''"
    by simp_all
  have mem: "''XTZ'' \<in> set [''XTZ'', ''USDT'']"
    by simp
  obtain r where r: "snd ?out = Inr r"
    by (simp add: balances_example)
  have 4: "GetTokenBalance ''KT1usdt'' ''tz1owner'' 0 6 \<in> set (fst ?out)"
    by (simp add: balances_example)
  note w = balances_native_symbol [of "''tz1owner''" example_tezos 5 9 ?req, unfolded nat syms addr]
  from w mem have 1: "GetNativeBalance ''tz1owner'' \<in> set (fst ?out)"
    by blast
  from w r mem have 2: "\<exists>v. getNativeBalance example_tezos ''tz1owner'' = Inr v \<and>
      map_of (BalanceResponse.balances r) ''XTZ'' = Some (tokenValueToString v)"
    by (metis (no_types, lifting))
  from w 4 have 3: "\<exists>s tok. s \<in> set [''XTZ'', ''USDT''] \<and> s \<noteq> ''XTZ'' \<and>
      getTokenForSymbol example_tezos s = Some tok \<and> ''KT1usdt'' = TokenInfo.address tok"
    by blast
  show ?thesis using 1 2 3 4 r by blast
qed






subsection \<open>allowances\<close>

















subsection \<open>An empty result is a fault\<close>



subsection \<open>Tokens without a token id\<close>












subsection \<open>Evaluating the number and string helpers\<close>

lemma parse_digits_zeros:
  "parse_digits 10 (replicate n (CHR ''0'')) acc = acc * 10 ^ n"
  by (induction n arbitrary: acc) (simp_all add: digit_of_def)

lemma parseUnits_example: "parseUnits ''1.5'' 6 = Inr 1500000"
  by (simp add: parseUnits_def is_digit_def trim_zeros_def digit_of_def parse_digits_zeros)

lemma parseUnits_empty: "parseUnits [] 6 = Inl ''invalid decimal value''"
  by (simp add: parseUnits_def)

lemma amount_example: "bigNumberWithDecimalToStr 1500000 6 = ''1.500000''"
  by (simp add: bigNumberWithDecimalToStr_def decimal.simps)

lemmas number_simps =
  parseInt_def is_whitespace_def digit_of_def to_Number_def round_double_def bitlen.simps
  String_positive_def decimal.simps

lemma gas_example:
  "String_number (number_add (parseInt ''1500'') (parseInt ''60'')) = ''1560''"
  by (simp add: number_simps)

lemma nonce_example: "parseInt ''41'' = Num 41"
  by (simp add: number_simps)

lemma rounding_example:
  "String_number (number_add (parseInt ''9007199254740992'') (parseInt ''1'')) = ''9007199254740992''"
  by (simp add: number_simps)

lemma decimal_example: "decimal (9007199254740992 + 1) = ''9007199254740993''"
  by (simp add: decimal.simps)

subsection \<open>toTezosTransaction\<close>

lemma digit_char:
  assumes "d < 10"
  shows "of_char (''0123456789'' ! d) = 48 + d"
proof -
  from assms have "d \<in> {0, 1, 2, 3, 4, 5, 6, 7, 8, 9}" by auto
  then show ?thesis by auto
qed

lemma is_digit_decimal: "\<forall>c \<in> set (decimal n). is_digit c"
proof (induction n rule: decimal.induct)
  case (1 n)
  show ?case
  proof (cases "n < 10")
    case True
    then show ?thesis
      using digit_char [of n] by (subst decimal.simps) (simp add: is_digit_def)
  next
    case False
    have "n mod 10 < 10" by simp
    with False "1.IH" show ?thesis
      using digit_char [of "n mod 10"] by (subst decimal.simps) (simp add: is_digit_def)
  qed
qed

lemma decimal_not_Nil: "decimal n \<noteq> []"
  by (subst decimal.simps) simp

lemma digit_of_is_digit: "is_digit c \<Longrightarrow> digit_of 10 c = Some (of_char c - 48)"
  by (auto simp: is_digit_def digit_of_def Let_def)

lemma digit_of_digit_char: "d < 10 \<Longrightarrow> digit_of 10 (''0123456789'' ! d) = Some d"
proof -
  assume d: "d < 10"
  then have "is_digit (''0123456789'' ! d)"
    using digit_char [OF d] by (simp add: is_digit_def)
  from digit_of_is_digit [OF this] digit_char [OF d] show ?thesis by simp
qed

lemma parse_digits_append:
  "\<forall>c \<in> set xs. is_digit c \<Longrightarrow>
     parse_digits 10 (xs @ ys) acc = parse_digits 10 ys (parse_digits 10 xs acc)"
  by (induction xs arbitrary: acc) (simp_all add: digit_of_is_digit)

lemma parse_digits_decimal: "parse_digits 10 (decimal n) 0 = n"
proof (induction n rule: decimal.induct)
  case (1 n)
  show ?case
  proof (cases "n < 10")
    case True
    then show ?thesis
      by (subst decimal.simps) (simp add: digit_of_digit_char)
  next
    case False
    have d: "n mod 10 < 10" by simp
    have "parse_digits 10 (decimal (n div 10) @ [''0123456789'' ! (n mod 10)]) 0
        = parse_digits 10 [''0123456789'' ! (n mod 10)] (parse_digits 10 (decimal (n div 10)) 0)"
      by (rule parse_digits_append) (rule is_digit_decimal)
    also have "\<dots> = (n div 10) * 10 + n mod 10"
      using False "1.IH" by (simp add: digit_of_digit_char [OF d])
    also have "\<dots> = n" by simp
    finally show ?thesis using False by (subst decimal.simps) simp
  qed
qed

text \<open>\<open>parseInt\<close> on a non-empty string of decimal digits reads the whole string.\<close>

lemma parseInt_digits:
  assumes ne: "s \<noteq> []" and dig: "\<forall>c \<in> set s. is_digit c"
  shows "parseInt s = to_Number (int (parse_digits 10 s 0))"
proof -
  from ne obtain c cs where s: "s = c # cs" by (cases s) auto
  with dig have c: "is_digit c" by simp
  then have nw: "\<not> is_whitespace c" and nm: "c \<noteq> CHR ''-''" and np: "c \<noteq> CHR ''+''"
    by (auto simp: is_digit_def is_whitespace_def Let_def)
  have nh: "take 2 s \<noteq> ''0x'' \<and> take 2 s \<noteq> ''0X''"
  proof (cases cs)
    case Nil
    with s show ?thesis by simp
  next
    case (Cons c2 cs2)
    with s dig have "is_digit c2" by simp
    then have "c2 \<noteq> CHR ''x''" "c2 \<noteq> CHR ''X''" by (auto simp: is_digit_def Let_def)
    with s Cons show ?thesis by simp
  qed
  from c have "digit_of 10 c \<noteq> None" by (simp add: digit_of_is_digit)
  then obtain d where d: "digit_of 10 c = Some d" by auto
  have dw: "dropWhile is_whitespace s = s" using s nw by simp
  have t1: "take 1 s \<noteq> ''-''" "take 1 s \<noteq> ''+''" using s nm np by simp_all
  show ?thesis
    unfolding parseInt_def Let_def dw using t1 nh
    by (simp add: s [symmetric]) (simp add: s d)
qed

lemma parseInt_decimal: "parseInt (decimal n) = to_Number (int n)"
  using parseInt_digits [OF decimal_not_Nil is_digit_decimal, of n]
  by (simp add: parse_digits_decimal)

lemma bitlen_less: "n < 2 ^ k \<Longrightarrow> bitlen n \<le> k"
proof (induction k arbitrary: n)
  case 0
  then show ?case by (subst bitlen.simps) simp
next
  case (Suc k)
  from Suc.prems have "n div 2 < 2 ^ k" by auto
  from Suc.IH [OF this] show ?case by (subst bitlen.simps) simp
qed

lemma bitlen_power: "bitlen (2 ^ k) = Suc k"
proof (induction k)
  case 0
  show ?case by (subst bitlen.simps, simp, subst bitlen.simps, simp)
next
  case (Suc k)
  then show ?case by (subst bitlen.simps) simp
qed

text \<open>Integers up to \<open>2 ^ 53\<close> are doubles.\<close>

lemma round_double_exact:
  assumes "n \<le> 2 ^ 53"
  shows "round_double n = n"
proof (cases "n < 2 ^ 53")
  case True
  then have "bitlen n \<le> 53" by (rule bitlen_less)
  then show ?thesis by (simp add: round_double_def)
next
  case False
  with assms have n: "n = 2 ^ 53" by simp
  have "bitlen (2 ^ 53 :: nat) = 54" using bitlen_power [of 53] by simp
  then show ?thesis by (simp add: round_double_def n Let_def)
qed

lemma to_Number_exact: "n \<le> 2 ^ 53 \<Longrightarrow> to_Number (int n) = Num (int n)"
proof -
  assume n: "n \<le> 2 ^ 53"
  have "(2::nat) ^ 53 < 2 ^ 1024" by simp
  with n have "\<not> 2 ^ 1024 \<le> n" by linarith
  with n show ?thesis by (simp add: to_Number_def round_double_exact)
qed

lemma gasLimit_sum:
  assumes "a + b \<le> 2 ^ 53"
  shows "String_number (number_add (parseInt (decimal a)) (parseInt (decimal b))) = decimal (a + b)"
proof -
  from assms have a: "a \<le> 2 ^ 53" and b: "b \<le> 2 ^ 53" by simp_all
  have "number_add (parseInt (decimal a)) (parseInt (decimal b)) = to_Number (int a + int b)"
    by (simp add: parseInt_decimal to_Number_exact [OF a] to_Number_exact [OF b])
  also have "\<dots> = Num (int (a + b))"
    using to_Number_exact [OF assms] by simp
  finally have sum: "number_add (parseInt (decimal a)) (parseInt (decimal b)) = Num (int (a + b))" .
  have "String_number (Num (int n)) = decimal n" if "n \<le> 2 ^ 53" for n
    using that by (simp add: String_positive_def)
  from this [OF assms] show ?thesis unfolding sum .
qed

subsection \<open>parseUnits on decimal notation\<close>

lemma parse_digits_pad:
  "\<forall>c \<in> set xs. is_digit c \<Longrightarrow>
     parse_digits 10 (xs @ replicate n (CHR ''0'')) 0 = parse_digits 10 xs 0 * 10 ^ n"
  by (simp add: parse_digits_append parse_digits_zeros)

lemma trim_zeros_decomp:
  "f = trim_zeros f @ replicate (length f - length (trim_zeros f)) (CHR ''0'')"
proof -
  let ?P = "\<lambda>c. c = CHR ''0''"
  have tw: "takeWhile ?P xs = replicate (length (takeWhile ?P xs)) (CHR ''0'')" for xs :: string
    by (induction xs) auto
  have "rev f = takeWhile ?P (rev f) @ dropWhile ?P (rev f)" by simp
  then have "f = rev (dropWhile ?P (rev f)) @ rev (takeWhile ?P (rev f))"
    by (metis rev_append rev_rev_ident)
  moreover have "rev (takeWhile ?P (rev f)) = replicate (length (takeWhile ?P (rev f))) (CHR ''0'')"
    using tw [of "rev f"] by (metis rev_replicate)
  moreover have "length (takeWhile ?P (rev f)) = length f - length (trim_zeros f)"
  proof -
    have "length (takeWhile ?P (rev f)) + length (dropWhile ?P (rev f)) = length (rev f)"
      by (metis length_append takeWhile_dropWhile_id)
    then show ?thesis by (simp add: trim_zeros_def)
  qed
  ultimately show ?thesis by (simp add: trim_zeros_def)
qed

lemma trim_zeros_subset: "set (trim_zeros f) \<subseteq> set f"
  by (auto simp: trim_zeros_def dest: set_dropWhileD)

lemma length_trim_zeros: "length (trim_zeros f) \<le> length f"
  using length_dropWhile_le [of "\<lambda>c. c = CHR ''0''" "rev f"] by (simp add: trim_zeros_def)

text \<open>The digits of the fraction, padded to \<open>d\<close> places, whatever zeros were trimmed.\<close>

lemma padded_fraction:
  assumes dig: "\<forall>c \<in> set f. is_digit c" and len: "length f \<le> d"
  shows "parse_digits 10
           ((if trim_zeros f = [] then ''0'' else trim_zeros f)
              @ replicate (d - length (if trim_zeros f = [] then ''0'' else trim_zeros f)) (CHR ''0'')) 0
         = parse_digits 10 f 0 * 10 ^ (d - length f)"
proof -
  let ?t = "trim_zeros f"
  let ?n = "length f - length ?t"
  have td: "\<forall>c \<in> set ?t. is_digit c" using dig trim_zeros_subset [of f] by blast
  have f: "f = ?t @ replicate ?n (CHR ''0'')" by (rule trim_zeros_decomp)
  have vf: "parse_digits 10 f 0 = parse_digits 10 ?t 0 * 10 ^ ?n"
    by (subst f) (rule parse_digits_pad [OF td])
  show ?thesis
  proof (cases "?t = []")
    case True
    have z: "is_digit (CHR ''0'')" by (simp add: is_digit_def)
    have "parse_digits 10 (''0'' @ replicate (d - length ''0'') (CHR ''0'')) 0
        = parse_digits 10 ''0'' 0 * 10 ^ (d - length ''0'')"
      by (rule parse_digits_pad) (simp add: z)
    also have "\<dots> = 0" by (simp add: digit_of_def)
    finally show ?thesis using True vf by simp
  next
    case False
    have le: "length ?t \<le> length f" by (rule length_trim_zeros)
    have "parse_digits 10 (?t @ replicate (d - length ?t) (CHR ''0'')) 0
        = parse_digits 10 ?t 0 * 10 ^ (d - length ?t)"
      by (rule parse_digits_pad [OF td])
    also have "\<dots> = parse_digits 10 ?t 0 * 10 ^ (?n + (d - length f))"
      using le len by simp
    also have "\<dots> = parse_digits 10 f 0 * 10 ^ (d - length f)"
      by (simp add: vf power_add)
    finally show ?thesis using False by simp
  qed
qed

text \<open>
  \<open>parseUnits\<close> on \<open>w.f\<close>, with \<open>w\<close> a non-empty string of digits and \<open>f\<close> at most
  \<open>d\<close> digits: the whole part times \<open>10 ^ d\<close> plus the fraction shifted to \<open>d\<close>
  places, which is the number \<open>w.f\<close> times \<open>10 ^ d\<close>.
\<close>

lemma parseUnits_decimal:
  assumes w: "w \<noteq> []" and wd: "\<forall>c \<in> set w. is_digit c"
    and fd: "\<forall>c \<in> set f. is_digit c" and len: "length f \<le> d" and d: "d \<le> 256"
  shows "parseUnits (w @ ''.'' @ f) d =
     Inr (int (parse_digits 10 w 0) * 10 ^ d + int (parse_digits 10 f 0) * 10 ^ (d - length f))"
proof -
  let ?v = "w @ ''.'' @ f"
  let ?P = "\<lambda>c. c \<noteq> CHR ''.''"
  have nd: "\<not> is_digit (CHR ''.'')" "\<not> is_digit (CHR ''-'')" by (simp_all add: is_digit_def)
  from w obtain c cs where wc: "w = c # cs" by (cases w) auto
  with wd have "is_digit c" by simp
  with nd have c: "c \<noteq> CHR ''-''" "c \<noteq> CHR ''.''" by auto
  have neg: "take 1 ?v \<noteq> ''-''" using wc c by simp
  have wP: "\<forall>x \<in> set w. ?P x" using wd nd by auto
  have fP: "\<forall>x \<in> set f. ?P x" using fd nd by auto
  have whole: "takeWhile ?P ?v = w" using wP by (simp add: takeWhile_append2)
  have rest: "drop 1 (dropWhile ?P ?v) = f" using wP by (simp add: dropWhile_append2)
  have all: "list_all (\<lambda>c. is_digit c \<or> c = CHR ''.'') ?v"
    using wd fd by (auto simp: list_all_iff)
  have np: "?v \<noteq> ''.''" using wc by simp
  have nodot: "CHR ''.'' \<notin> set f" using fP by auto
  have frac: "trim_zeros (if f = [] then ''0'' else f) = trim_zeros f"
    by (simp add: trim_zeros_def)
  have flen: "\<not> d < length (trim_zeros f)" using length_trim_zeros [of f] len by simp
  have unit: "\<not> 256 < d" using d by simp
  have pf: "int (parse_digits 10
           ((if trim_zeros f = [] then ''0'' else trim_zeros f)
              @ replicate (d - length (if trim_zeros f = [] then ''0'' else trim_zeros f)) (CHR ''0'')) 0)
         = int (parse_digits 10 f 0) * 10 ^ (d - length f)"
    using padded_fraction [OF fd len] by simp
  show ?thesis
    unfolding parseUnits_def Let_def
    by (simp only: unit neg whole rest all np nodot frac flen w pf if_False if_True
          simp_thms append_is_Nil_conv list.simps not_False_eq_True)
qed

subsection \<open>approve\<close>



text \<open>The entry point \<open>approve\<close> sends for a token of a known standard.\<close>

lemma approve_known_standard:
  assumes "getWallet c (ApproveRequest.address req) = Inr w"
    and "getTokenForSymbol c (token req) = Some tok"
    and "amountBigNumber (ApproveRequest.amount req) (TokenInfo.decimals tok) = Inr amt"
    and "contract_at w (TokenInfo.address tok) = Inr k"
    and "standard tok = ''fa1.2'' \<and> call = Approve (ApproveRequest.spender req) amt \<or>
         standard tok = ''fa2'' \<and>
         call = Update_operators_add_operator (ApproveRequest.address req)
                  (ApproveRequest.spender req) (tokenId tok)"
  shows "approve c t0 t1 req =
     approve_send c t0 t1 req w tok amt k
       [GetWallet (ApproveRequest.address req), GetTokenForSymbol (token req),
        ContractAt (TokenInfo.address tok)] call"
  using assms by (auto simp: approve_def Let_def)



lemma approve_send_calls:
  "Send x \<in> set (fst (approve_send c t0 t1 req w tok amt k calls call)) \<Longrightarrow>
     x = call \<or> Send x \<in> set calls"
  by (auto simp: approve_send_def split: list.splits sum.splits)

lemma approve_send_issued:
  "Send call \<in> set (fst (approve_send c t0 t1 req w tok amt k calls call))"
  by (auto simp: approve_send_def split: list.splits sum.splits)

lemma approve_send_success:
  "send k call = Inr op \<Longrightarrow> operationResults op = o1 # os \<Longrightarrow> rpc_getChainId w = Inr cid \<Longrightarrow>
   approve_send c t0 t1 req w tok amt k calls call =
     (calls @ [Send call, GetChainId],
      Inr \<lparr> ApproveResponse.network = chainName c, timestamp = t0,
            latency = latency' t0 t1, tokenAddress = TokenInfo.address tok,
            spender = ApproveRequest.spender req,
            amount = bigNumberWithDecimalToStr amt (TokenInfo.decimals tok),
            nonce = parseInt (counter o1),
            approval = toTezosTransaction (TransactionOperation.hash op) o1 cid \<rparr>)"
  by (simp add: approve_send_def)





lemma approve_send_calls_eq:
  "fst (approve_send c t0 t1 req w tok amt k calls call) =
   fst (approve_send c t0 t1 req' w tok amt' k calls call)"
  by (auto simp: approve_send_def split: list.splits sum.splits)

lemma approve_Send_fa2:
  assumes w: "getWallet c (ApproveRequest.address req) = Inr w"
    and g: "getTokenForSymbol c (token req) = Some tok"
    and st: "standard tok = ''fa2''"
    and x: "Send x \<in> set (fst (approve c t0 t1 req))"
  shows "x = Update_operators_add_operator (ApproveRequest.address req)
               (ApproveRequest.spender req) (tokenId tok)"
proof (cases "amountBigNumber (ApproveRequest.amount req) (TokenInfo.decimals tok)")
  case (Inl e)
  with w g x show ?thesis by (simp add: approve_def)
next
  case amt: (Inr amt)
  show ?thesis
  proof (cases "contract_at w (TokenInfo.address tok)")
    case (Inl e)
    with w g amt x show ?thesis by (simp add: approve_def)
  next
    case (Inr k)
    from approve_known_standard [OF w g amt Inr, of "Update_operators_add_operator
      (ApproveRequest.address req) (ApproveRequest.spender req) (tokenId tok)" t0 t1] st x
    have "Send x \<in> set (fst (approve_send c t0 t1 req w tok amt k
       [GetWallet (ApproveRequest.address req), GetTokenForSymbol (token req),
        ContractAt (TokenInfo.address tok)]
       (Update_operators_add_operator (ApproveRequest.address req)
          (ApproveRequest.spender req) (tokenId tok))))" by simp
    from approve_send_calls [OF this] show ?thesis by simp
  qed
qed

lemma approve_Send_fa12:
  assumes w: "getWallet c (ApproveRequest.address req) = Inr w"
    and g: "getTokenForSymbol c (token req) = Some tok"
    and st: "standard tok = ''fa1.2''"
    and amt: "amountBigNumber (ApproveRequest.amount req) (TokenInfo.decimals tok) = Inr amt"
    and k: "contract_at w (TokenInfo.address tok) = Inr k"
  shows "Send (Approve (ApproveRequest.spender req) amt) \<in> set (fst (approve c t0 t1 req)) \<and>
         (\<forall>x. Send x \<in> set (fst (approve c t0 t1 req)) \<longrightarrow>
            x = Approve (ApproveRequest.spender req) amt)"
proof -
  from approve_known_standard [OF w g amt k, of "Approve (ApproveRequest.spender req) amt" t0 t1] st
  have eq: "approve c t0 t1 req = approve_send c t0 t1 req w tok amt k
       [GetWallet (ApproveRequest.address req), GetTokenForSymbol (token req),
        ContractAt (TokenInfo.address tok)] (Approve (ApproveRequest.spender req) amt)"
    by simp
  have 1: "Send (Approve (ApproveRequest.spender req) amt) \<in> set (fst (approve c t0 t1 req))"
    unfolding eq by (rule approve_send_issued)
  have 2: "x = Approve (ApproveRequest.spender req) amt"
    if "Send x \<in> set (fst (approve c t0 t1 req))" for x
    using approve_send_calls [OF that [unfolded eq]] by simp
  from 1 2 show ?thesis by blast
qed

text \<open>
  C8. On an \<open>fa2\<close> token every operation \<open>approve\<close> sends is \<open>update_operators\<close> with
  \<open>add_operator\<close> holding the owner address, the spender as operator and the token id of
  the token, and nothing else; it is sent once the amount is parsed and the contract is at
  hand; the amount goes into the response only, rendered with the decimals of the token;
  and the calls issued do not depend on the amount.
\<close>

theorem approve_operator_style:
  assumes w: "getWallet c (ApproveRequest.address req) = Inr w"
    and g: "getTokenForSymbol c (token req) = Some tok"
    and st: "standard tok = ''fa2''"
  shows
   "(\<forall>x. Send x \<in> set (fst (approve c t0 t1 req)) \<longrightarrow>
       x = Update_operators_add_operator (ApproveRequest.address req)
             (ApproveRequest.spender req) (tokenId tok)) \<and>
    (\<forall>amt k. amountBigNumber (ApproveRequest.amount req) (TokenInfo.decimals tok) = Inr amt \<longrightarrow>
       contract_at w (TokenInfo.address tok) = Inr k \<longrightarrow>
       Send (Update_operators_add_operator (ApproveRequest.address req)
               (ApproveRequest.spender req) (tokenId tok)) \<in> set (fst (approve c t0 t1 req)) \<and>
       (\<forall>op o1 os cid.
          send k (Update_operators_add_operator (ApproveRequest.address req)
                    (ApproveRequest.spender req) (tokenId tok)) = Inr op \<longrightarrow>
          operationResults op = o1 # os \<longrightarrow> rpc_getChainId w = Inr cid \<longrightarrow>
          (\<exists>r. snd (approve c t0 t1 req) = Inr r \<and>
             ApproveResponse.amount r = bigNumberWithDecimalToStr amt (TokenInfo.decimals tok)))) \<and>
    (\<forall>a amt amt'.
       amountBigNumber (ApproveRequest.amount req) (TokenInfo.decimals tok) = Inr amt \<longrightarrow>
       amountBigNumber a (TokenInfo.decimals tok) = Inr amt' \<longrightarrow>
       fst (approve c t0 t1 (req\<lparr> ApproveRequest.amount := a \<rparr>)) = fst (approve c t0 t1 req))"
proof (intro conjI allI impI)
  fix x assume "Send x \<in> set (fst (approve c t0 t1 req))"
  with w g st show "x = Update_operators_add_operator (ApproveRequest.address req)
             (ApproveRequest.spender req) (tokenId tok)"
    by (rule approve_Send_fa2)
next
  fix amt k
  assume amt: "amountBigNumber (ApproveRequest.amount req) (TokenInfo.decimals tok) = Inr amt"
    and k: "contract_at w (TokenInfo.address tok) = Inr k"
  from approve_known_standard [OF w g amt k, of "Update_operators_add_operator
      (ApproveRequest.address req) (ApproveRequest.spender req) (tokenId tok)" t0 t1] st
  have eq: "approve c t0 t1 req = approve_send c t0 t1 req w tok amt k
       [GetWallet (ApproveRequest.address req), GetTokenForSymbol (token req),
        ContractAt (TokenInfo.address tok)]
       (Update_operators_add_operator (ApproveRequest.address req)
          (ApproveRequest.spender req) (tokenId tok))"
    by simp
  show "Send (Update_operators_add_operator (ApproveRequest.address req)
               (ApproveRequest.spender req) (tokenId tok)) \<in> set (fst (approve c t0 t1 req))"
    unfolding eq by (rule approve_send_issued)
  fix op o1 os cid
  assume "send k (Update_operators_add_operator (ApproveRequest.address req)
                    (ApproveRequest.spender req) (tokenId tok)) = Inr op"
    "operationResults op = o1 # os" "rpc_getChainId w = Inr cid"
  from approve_send_success [OF this, of c t0 t1 req tok amt]
  show "\<exists>r. snd (approve c t0 t1 req) = Inr r \<and>
             ApproveResponse.amount r = bigNumberWithDecimalToStr amt (TokenInfo.decimals tok)"
    unfolding eq by simp
next
  fix a amt amt'
  assume amt: "amountBigNumber (ApproveRequest.amount req) (TokenInfo.decimals tok) = Inr amt"
    and amt': "amountBigNumber a (TokenInfo.decimals tok) = Inr amt'"
  let ?req' = "req\<lparr> ApproveRequest.amount := a \<rparr>"
  let ?call = "Update_operators_add_operator (ApproveRequest.address req)
      (ApproveRequest.spender req) (tokenId tok)"
  have w': "getWallet c (ApproveRequest.address ?req') = Inr w"
    and g': "getTokenForSymbol c (token ?req') = Some tok"
    and a': "amountBigNumber (ApproveRequest.amount ?req') (TokenInfo.decimals tok) = Inr amt'"
    using w g amt' by simp_all
  show "fst (approve c t0 t1 ?req') = fst (approve c t0 t1 req)"
  proof (cases "contract_at w (TokenInfo.address tok)")
    case (Inl e)
    with w g amt w' g' a' show ?thesis by (simp add: approve_def)
  next
    case (Inr k)
    from approve_known_standard [OF w g amt Inr, of ?call t0 t1] st
    have 1: "approve c t0 t1 req = approve_send c t0 t1 req w tok amt k
       [GetWallet (ApproveRequest.address req), GetTokenForSymbol (token req),
        ContractAt (TokenInfo.address tok)] ?call"
      by simp
    from approve_known_standard [OF w' g' a' Inr, of ?call t0 t1] st
    have 2: "approve c t0 t1 ?req' = approve_send c t0 t1 ?req' w tok amt' k
       [GetWallet (ApproveRequest.address req), GetTokenForSymbol (token req),
        ContractAt (TokenInfo.address tok)] ?call"
      by simp
    show ?thesis unfolding 1 2 by (rule approve_send_calls_eq)
  qed
qed

theorem approve_operator_style_witness:
  "Send (Update_operators_add_operator ''tz1owner'' ''sp'' (Some 0))
     \<in> set (fst (approve example_tezos 5 9
          \<lparr> ApproveRequest.amount = Some ''1.5'', ApproveRequest.address = ''tz1owner'',
            ApproveRequest.spender = ''sp'', token = ''USDT'' \<rparr>)) \<and>
   (\<exists>r. snd (approve example_tezos 5 9
          \<lparr> ApproveRequest.amount = Some ''1.5'', ApproveRequest.address = ''tz1owner'',
            ApproveRequest.spender = ''sp'', token = ''USDT'' \<rparr>) = Inr r \<and>
      ApproveResponse.amount r = ''1.500000'') \<and>
   fst (approve example_tezos 5 9
          \<lparr> ApproveRequest.amount = None, ApproveRequest.address = ''tz1owner'',
            ApproveRequest.spender = ''sp'', token = ''USDT'' \<rparr>)
     = fst (approve example_tezos 5 9
          \<lparr> ApproveRequest.amount = Some ''1.5'', ApproveRequest.address = ''tz1owner'',
            ApproveRequest.spender = ''sp'', token = ''USDT'' \<rparr>)"
proof -
  let ?r = "\<lparr> ApproveRequest.amount = Some ''1.5'', ApproveRequest.address = ''tz1owner'',
            ApproveRequest.spender = ''sp'', token = ''USDT'' \<rparr>"
  let ?rn = "\<lparr> ApproveRequest.amount = None, ApproveRequest.address = ''tz1owner'',
            ApproveRequest.spender = ''sp'', token = ''USDT'' \<rparr>"
  let ?usdt = "\<lparr> TokenInfo.address = ''KT1usdt'', tokenId = Some 0, TokenInfo.decimals = 6,
               standard = ''fa2'' \<rparr>"
  let ?call = "Update_operators_add_operator ''tz1owner'' ''sp'' (Some 0)"
  let ?op = "\<lparr> TransactionOperation.hash = ''oo1'', operationResults = [example_operation] \<rparr>"
  have w: "getWallet example_tezos (ApproveRequest.address ?r) = Inr example_wallet"
    by (simp add: example_tezos_def)
  have g: "getTokenForSymbol example_tezos (token ?r) = Some ?usdt"
    by (simp add: example_tezos_def example_registry_def)
  have st: "standard ?usdt = ''fa2''"
    by simp
  have a: "amountBigNumber (ApproveRequest.amount ?r) (TokenInfo.decimals ?usdt) = Inr 1500000"
    by (simp add: amountBigNumber_def parseUnits_example)
  have a0: "amountBigNumber None (TokenInfo.decimals ?usdt) = Inr MaxUint256"
    by (simp add: amountBigNumber_def)
  have k: "contract_at example_wallet (TokenInfo.address ?usdt) = Inr example_contract"
    by (simp add: example_wallet_def)
  have f: "ApproveRequest.address ?r = ''tz1owner''" "ApproveRequest.spender ?r = ''sp''"
    "tokenId ?usdt = Some 0" "TokenInfo.decimals ?usdt = 6"
    by simp_all
  have s: "send example_contract ?call = Inr ?op"
    by (simp add: example_contract_def)
  have o: "operationResults ?op = example_operation # []"
    by simp
  have cid: "rpc_getChainId example_wallet = Inr ''NetXdQprcVkpaWU''"
    by (simp add: example_wallet_def)
  have upd: "?r\<lparr> ApproveRequest.amount := None \<rparr> = ?rn"
    by simp
  note t = approve_operator_style [OF w g st, of 5 9, unfolded f]
  note t2 = t [THEN conjunct2, THEN conjunct1, rule_format, OF a [unfolded f] k]
  from t2 have 1: "Send ?call \<in> set (fst (approve example_tezos 5 9 ?r))"
    by (rule conjunct1)
  from t2 [THEN conjunct2, rule_format, OF s o cid]
  have 2: "\<exists>r. snd (approve example_tezos 5 9 ?r) = Inr r \<and> ApproveResponse.amount r = ''1.500000''"
    by (simp only: amount_example)
  from t [THEN conjunct2, THEN conjunct2, rule_format, OF a [unfolded f] a0 [unfolded f]]
  have 3: "fst (approve example_tezos 5 9 ?rn) = fst (approve example_tezos 5 9 ?r)"
    by (simp only: upd)
  from 1 2 3 show ?thesis by blast
qed

text \<open>
  C10. An amount that is the empty string is falsy: \<open>approve\<close> behaves as with no amount
  at all, and on an \<open>fa1.2\<close> token, once the wallet is loaded and the contract is at hand,
  the value it sends is \<open>2 ^ 256 - 1\<close>.
\<close>

theorem approve_empty_amount:
  "approve c t0 t1 (req\<lparr> ApproveRequest.amount := Some [] \<rparr>)
     = approve c t0 t1 (req\<lparr> ApproveRequest.amount := None \<rparr>) \<and>
   (\<forall>w tok k. getWallet c (ApproveRequest.address req) = Inr w \<longrightarrow>
      getTokenForSymbol c (token req) = Some tok \<longrightarrow> standard tok = ''fa1.2'' \<longrightarrow>
      contract_at w (TokenInfo.address tok) = Inr k \<longrightarrow>
      Send (Approve (ApproveRequest.spender req) (2 ^ 256 - 1))
        \<in> set (fst (approve c t0 t1 (req\<lparr> ApproveRequest.amount := Some [] \<rparr>))))"
proof (intro conjI allI impI)
  show "approve c t0 t1 (req\<lparr> ApproveRequest.amount := Some [] \<rparr>)
     = approve c t0 t1 (req\<lparr> ApproveRequest.amount := None \<rparr>)"
    by (simp add: approve_def approve_send_def amountBigNumber_def
          cong: sum.case_cong option.case_cong list.case_cong if_cong)
next
  fix w tok k
  let ?req = "req\<lparr> ApproveRequest.amount := Some [] \<rparr>"
  assume "getWallet c (ApproveRequest.address req) = Inr w"
    "getTokenForSymbol c (token req) = Some tok" "standard tok = ''fa1.2''"
    "contract_at w (TokenInfo.address tok) = Inr k"
  then have w: "getWallet c (ApproveRequest.address ?req) = Inr w"
    and g: "getTokenForSymbol c (token ?req) = Some tok"
    and st: "standard tok = ''fa1.2''"
    and k: "contract_at w (TokenInfo.address tok) = Inr k"
    by simp_all
  have a: "amountBigNumber (ApproveRequest.amount ?req) (TokenInfo.decimals tok) = Inr (2 ^ 256 - 1)"
    by (simp add: amountBigNumber_def MaxUint256_def)
  from approve_Send_fa12 [OF w g st a k, of t0 t1]
  show "Send (Approve (ApproveRequest.spender req) (2 ^ 256 - 1))
        \<in> set (fst (approve c t0 t1 ?req))"
    by simp
qed

theorem approve_empty_amount_witness:
  "approve example_tezos 5 9
     \<lparr> ApproveRequest.amount = Some [], ApproveRequest.address = ''tz1owner'',
       ApproveRequest.spender = ''sp'', token = ''CTEZ'' \<rparr>
   = approve example_tezos 5 9
     \<lparr> ApproveRequest.amount = None, ApproveRequest.address = ''tz1owner'',
       ApproveRequest.spender = ''sp'', token = ''CTEZ'' \<rparr> \<and>
   Send (Approve ''sp'' (2 ^ 256 - 1))
     \<in> set (fst (approve example_tezos 5 9
          \<lparr> ApproveRequest.amount = Some [], ApproveRequest.address = ''tz1owner'',
            ApproveRequest.spender = ''sp'', token = ''CTEZ'' \<rparr>))"
proof -
  let ?r = "\<lparr> ApproveRequest.amount = Some ''1'', ApproveRequest.address = ''tz1owner'',
            ApproveRequest.spender = ''sp'', token = ''CTEZ'' \<rparr>"
  let ?re = "\<lparr> ApproveRequest.amount = Some [], ApproveRequest.address = ''tz1owner'',
            ApproveRequest.spender = ''sp'', token = ''CTEZ'' \<rparr>"
  let ?rn = "\<lparr> ApproveRequest.amount = None, ApproveRequest.address = ''tz1owner'',
            ApproveRequest.spender = ''sp'', token = ''CTEZ'' \<rparr>"
  let ?ctez = "\<lparr> TokenInfo.address = ''KT1ctez'', tokenId = None, TokenInfo.decimals = 6,
               standard = ''fa1.2'' \<rparr>"
  have w: "getWallet example_tezos (ApproveRequest.address ?r) = Inr example_wallet"
    by (simp add: example_tezos_def)
  have g: "getTokenForSymbol example_tezos (token ?r) = Some ?ctez"
    by (simp add: example_tezos_def example_registry_def)
  have st: "standard ?ctez = ''fa1.2''"
    by simp
  have k: "contract_at example_wallet (TokenInfo.address ?ctez) = Inr example_contract"
    by (simp add: example_wallet_def)
  have u: "?r\<lparr> ApproveRequest.amount := Some [] \<rparr> = ?re"
    "?r\<lparr> ApproveRequest.amount := None \<rparr> = ?rn" "ApproveRequest.spender ?r = ''sp''"
    by simp_all
  note t = approve_empty_amount [of example_tezos 5 9 ?r, unfolded u]
  from t have 1: "approve example_tezos 5 9 ?re = approve example_tezos 5 9 ?rn"
    by (rule conjunct1)
  from t [THEN conjunct2, rule_format, OF w g st k]
  have 2: "Send (Approve ''sp'' (2 ^ 256 - 1)) \<in> set (fst (approve example_tezos 5 9 ?re))" .
  from 1 2 show ?thesis by blast
qed

text \<open>
  C4, as the code has it. On an \<open>fa1.2\<close> token, with the wallet loaded and the contract at
  hand: a supplied amount that is not the empty string and that \<open>parseUnits\<close> accepts at
  the decimals of the token is sent, scaled, as the value of the one \<open>approve\<close> call, and
  an omitted amount sends \<open>2 ^ 256 - 1\<close>. \<open>parseUnits\<close> scales \<open>1.5\<close> at 6 decimals to
  \<open>1500000\<close>; in general an amount written \<open>a.f\<close>, with \<open>f\<close> at most \<open>decimals\<close>
  digits, is sent as \<open>a * 10 ^ decimals\<close> plus the fraction shifted to \<open>decimals\<close>
  places.
\<close>

theorem approve_amount_scaling:
  assumes w: "getWallet c (ApproveRequest.address req) = Inr w"
    and g: "getTokenForSymbol c (token req) = Some tok"
    and st: "standard tok = ''fa1.2''"
    and k: "contract_at w (TokenInfo.address tok) = Inr k"
  shows
   "(\<forall>s v. ApproveRequest.amount req = Some s \<longrightarrow> s \<noteq> [] \<longrightarrow>
       parseUnits s (TokenInfo.decimals tok) = Inr v \<longrightarrow>
       Send (Approve (ApproveRequest.spender req) v) \<in> set (fst (approve c t0 t1 req)) \<and>
       (\<forall>x. Send x \<in> set (fst (approve c t0 t1 req)) \<longrightarrow>
          x = Approve (ApproveRequest.spender req) v)) \<and>
    (ApproveRequest.amount req = None \<longrightarrow>
       Send (Approve (ApproveRequest.spender req) (2 ^ 256 - 1))
         \<in> set (fst (approve c t0 t1 req)) \<and>
       (\<forall>x. Send x \<in> set (fst (approve c t0 t1 req)) \<longrightarrow>
          x = Approve (ApproveRequest.spender req) (2 ^ 256 - 1))) \<and>
    parseUnits ''1.5'' 6 = Inr 1500000 \<and>
    (\<forall>a f. ApproveRequest.amount req = Some (decimal a @ ''.'' @ f) \<longrightarrow>
       (\<forall>c \<in> set f. is_digit c) \<longrightarrow> length f \<le> TokenInfo.decimals tok \<longrightarrow>
       TokenInfo.decimals tok \<le> 256 \<longrightarrow>
       Send (Approve (ApproveRequest.spender req)
               (int a * 10 ^ TokenInfo.decimals tok
                + int (parse_digits 10 f 0) * 10 ^ (TokenInfo.decimals tok - length f)))
         \<in> set (fst (approve c t0 t1 req)))"
proof (intro conjI allI impI)
  fix s v
  assume "ApproveRequest.amount req = Some s" "s \<noteq> []"
    "parseUnits s (TokenInfo.decimals tok) = Inr v"
  then have a: "amountBigNumber (ApproveRequest.amount req) (TokenInfo.decimals tok) = Inr v"
    by (simp add: amountBigNumber_def)
  from approve_Send_fa12 [OF w g st a k, of t0 t1]
  show "Send (Approve (ApproveRequest.spender req) v) \<in> set (fst (approve c t0 t1 req))"
    by (rule conjunct1)
  fix x assume "Send x \<in> set (fst (approve c t0 t1 req))"
  with approve_Send_fa12 [OF w g st a k, of t0 t1]
  show "x = Approve (ApproveRequest.spender req) v" by blast
next
  assume "ApproveRequest.amount req = None"
  then have a: "amountBigNumber (ApproveRequest.amount req) (TokenInfo.decimals tok)
      = Inr (2 ^ 256 - 1)"
    by (simp add: amountBigNumber_def MaxUint256_def)
  from approve_Send_fa12 [OF w g st a k, of t0 t1]
  show "Send (Approve (ApproveRequest.spender req) (2 ^ 256 - 1))
         \<in> set (fst (approve c t0 t1 req))"
    by (rule conjunct1)
  fix x assume "Send x \<in> set (fst (approve c t0 t1 req))"
  with approve_Send_fa12 [OF w g st a k, of t0 t1]
  show "x = Approve (ApproveRequest.spender req) (2 ^ 256 - 1)" by blast
next
  show "parseUnits ''1.5'' 6 = Inr 1500000" by (rule parseUnits_example)
next
  fix a f
  assume am: "ApproveRequest.amount req = Some (decimal a @ ''.'' @ f)"
    and fd: "\<forall>c \<in> set f. is_digit c" and len: "length f \<le> TokenInfo.decimals tok"
    and d: "TokenInfo.decimals tok \<le> 256"
  from parseUnits_decimal [OF decimal_not_Nil is_digit_decimal fd len d, of a]
  have "parseUnits (decimal a @ ''.'' @ f) (TokenInfo.decimals tok) =
      Inr (int a * 10 ^ TokenInfo.decimals tok
           + int (parse_digits 10 f 0) * 10 ^ (TokenInfo.decimals tok - length f))"
    by (simp add: parse_digits_decimal)
  with am have a: "amountBigNumber (ApproveRequest.amount req) (TokenInfo.decimals tok) =
      Inr (int a * 10 ^ TokenInfo.decimals tok
           + int (parse_digits 10 f 0) * 10 ^ (TokenInfo.decimals tok - length f))"
    using decimal_not_Nil [of a] by (simp add: amountBigNumber_def)
  from approve_Send_fa12 [OF w g st a k, of t0 t1]
  show "Send (Approve (ApproveRequest.spender req)
               (int a * 10 ^ TokenInfo.decimals tok
                + int (parse_digits 10 f 0) * 10 ^ (TokenInfo.decimals tok - length f)))
         \<in> set (fst (approve c t0 t1 req))"
    by (rule conjunct1)
qed

theorem approve_amount_scaling_witness:
  "Send (Approve ''sp'' 1500000)
     \<in> set (fst (approve example_tezos 5 9
          \<lparr> ApproveRequest.amount = Some ''1.5'', ApproveRequest.address = ''tz1owner'',
            ApproveRequest.spender = ''sp'', token = ''CTEZ'' \<rparr>)) \<and>
   Send (Approve ''sp'' (2 ^ 256 - 1))
     \<in> set (fst (approve example_tezos 5 9
          \<lparr> ApproveRequest.amount = None, ApproveRequest.address = ''tz1owner'',
            ApproveRequest.spender = ''sp'', token = ''CTEZ'' \<rparr>))"
proof -
  let ?r = "\<lparr> ApproveRequest.amount = Some ''1.5'', ApproveRequest.address = ''tz1owner'',
            ApproveRequest.spender = ''sp'', token = ''CTEZ'' \<rparr>"
  let ?rn = "\<lparr> ApproveRequest.amount = None, ApproveRequest.address = ''tz1owner'',
            ApproveRequest.spender = ''sp'', token = ''CTEZ'' \<rparr>"
  let ?ctez = "\<lparr> TokenInfo.address = ''KT1ctez'', tokenId = None, TokenInfo.decimals = 6,
               standard = ''fa1.2'' \<rparr>"
  have w: "getWallet example_tezos (ApproveRequest.address ?r) = Inr example_wallet"
    and wn: "getWallet example_tezos (ApproveRequest.address ?rn) = Inr example_wallet"
    by (simp_all add: example_tezos_def)
  have g: "getTokenForSymbol example_tezos (token ?r) = Some ?ctez"
    and gn: "getTokenForSymbol example_tezos (token ?rn) = Some ?ctez"
    by (simp_all add: example_tezos_def example_registry_def)
  have st: "standard ?ctez = ''fa1.2''"
    by simp
  have k: "contract_at example_wallet (TokenInfo.address ?ctez) = Inr example_contract"
    by (simp add: example_wallet_def)
  have am: "ApproveRequest.amount ?r = Some ''1.5''" and ne: "''1.5'' \<noteq> []"
    and amn: "ApproveRequest.amount ?rn = None"
    and p: "parseUnits ''1.5'' (TokenInfo.decimals ?ctez) = Inr 1500000"
    by (simp_all add: parseUnits_example)
  have sp: "ApproveRequest.spender ?r = ''sp''" "ApproveRequest.spender ?rn = ''sp''"
    by simp_all
  from approve_amount_scaling [OF w g st k, of 5 9, THEN conjunct1, rule_format, OF am ne p]
  have 1: "Send (Approve ''sp'' 1500000) \<in> set (fst (approve example_tezos 5 9 ?r))"
    unfolding sp by (rule conjunct1)
  from approve_amount_scaling [OF wn gn st k, of 5 9, THEN conjunct2, THEN conjunct1,
    rule_format, OF amn]
  have 2: "Send (Approve ''sp'' (2 ^ 256 - 1)) \<in> set (fst (approve example_tezos 5 9 ?rn))"
    unfolding sp by (rule conjunct1)
  from 1 2 show ?thesis by blast
qed

text \<open>
  C4 as stated fails for a supplied amount that is the empty string: the value sent is
  \<open>2 ^ 256 - 1\<close>, which is no scaling of the amount (\<open>parseUnits\<close> rejects the empty
  string).
\<close>

theorem approve_supplied_amount_counterexample:
  "fst (approve example_tezos 5 9
     \<lparr> ApproveRequest.amount = Some [], ApproveRequest.address = ''tz1owner'',
       ApproveRequest.spender = ''sp'', token = ''CTEZ'' \<rparr>)
     = [GetWallet ''tz1owner'', GetTokenForSymbol ''CTEZ'', ContractAt ''KT1ctez'',
        Send (Approve ''sp'' (2 ^ 256 - 1)), GetChainId] \<and>
   parseUnits [] 6 = Inl ''invalid decimal value''"
  by (simp add: approve_def approve_send_def amountBigNumber_def MaxUint256_def
        example_simps parseUnits_empty)

text \<open>
  C9, as the code has it. In the normalized transaction \<open>maxFeePerGas\<close> and
  \<open>maxPriorityFeePerGas\<close> are null, \<open>value\<close> is the amount of the operation unchanged,
  and \<open>data\<close> is \<open>JSON.stringify\<close> of its parameters. For \<open>gas_limit\<close> and
  \<open>storage_limit\<close> the decimal strings of natural numbers whose sum is at most
  \<open>2 ^ 53\<close>, \<open>gasLimit\<close> is the decimal string of the sum.
\<close>

theorem toTezosTransaction_fields:
  "maxFeePerGas (toTezosTransaction h op cid) = None \<and>
   maxPriorityFeePerGas (toTezosTransaction h op cid) = None \<and>
   CustomTransaction.value (toTezosTransaction h op cid)
     = OperationContentsAndResultTransaction.amount op \<and>
   data (toTezosTransaction h op cid) = map_option JSON_stringify (parameters op) \<and>
   (\<forall>a b. gas_limit op = decimal a \<longrightarrow> storage_limit op = decimal b \<longrightarrow> a + b \<le> 2 ^ 53 \<longrightarrow>
      gasLimit (toTezosTransaction h op cid) = decimal (a + b))"
  by (simp add: toTezosTransaction_def gasLimit_sum)

theorem toTezosTransaction_fields_witness:
  "gas_limit example_operation = decimal 1500 \<and>
   storage_limit example_operation = decimal 60 \<and>
   (1500 :: nat) + 60 \<le> 2 ^ 53 \<and>
   gasLimit (toTezosTransaction ''oo1'' example_operation ''NetXdQprcVkpaWU'') = ''1560''"
proof -
  have g: "gas_limit example_operation = decimal 1500"
    and s: "storage_limit example_operation = decimal 60"
    by (simp_all add: example_operation_def decimal.simps)
  have le: "(1500 :: nat) + 60 \<le> 2 ^ 53"
    by simp
  have d: "decimal (1500 + 60) = ''1560''"
    by (simp add: decimal.simps)
  from toTezosTransaction_fields [of "''oo1''" example_operation "''NetXdQprcVkpaWU''",
    THEN conjunct2, THEN conjunct2, THEN conjunct2, THEN conjunct2, rule_format, OF g s le]
  have "gasLimit (toTezosTransaction ''oo1'' example_operation ''NetXdQprcVkpaWU'') = ''1560''"
    unfolding d .
  with g s le show ?thesis by blast
qed

text \<open>
  C9 as stated fails beyond the integers a double holds: the sum of \<open>2 ^ 53\<close> and 1
  rounds back to \<open>2 ^ 53\<close>.
\<close>

theorem toTezosTransaction_gasLimit_counterexample:
  "gasLimit (toTezosTransaction ''oo1''
      (example_operation\<lparr> gas_limit := ''9007199254740992'', storage_limit := ''1'' \<rparr>)
      ''NetXdQprcVkpaWU'') = ''9007199254740992'' \<and>
   decimal 9007199254740992 = ''9007199254740992'' \<and> decimal 1 = ''1'' \<and>
   decimal (9007199254740992 + 1) = ''9007199254740993''"
  by (simp add: toTezosTransaction_def rounding_example decimal.simps)

end
